theory Spec2Isabelle
  imports Complex_Main "HOL-Library.Char_ord" "HOL-Library.List_Lexorder"
begin

section \<open>The significance analysis of eval-report.ipynb\<close>

text \<open>
  The notebook computes top-N metrics with an external evaluation library, fills the
  missing values, and then runs, once per metric (precision, ndcg, recip_rank), a cell
  that groups the table by algorithm and calls \<^verbatim>\<open>friedmanchisquare\<close>, followed by a cell
  that calls \<^verbatim>\<open>wilcoxon\<close> on six pairs of groups through \<^verbatim>\<open>wilcox_bonf\<close>.

  The two statistical tests belong to an external library; they are parameters of the
  model. A Python float is a real number or NaN (rounding and the infinities are not
  modelled). A \<^verbatim>\<open>print\<close> is modelled by the tuple of the values it formats, appended
  to the standard output. An uncaught exception ends the run; what was printed before
  it stays printed.
\<close>

subsection \<open>Floats, exceptions, the metric table\<close>

datatype pyfloat = Num real | NaN

text \<open>\<^verbatim>\<open>p > new_alpha\<close>: every comparison with NaN is false.\<close>

fun float_gt :: "pyfloat \<Rightarrow> real \<Rightarrow> bool" where
  "float_gt (Num x) a = (x > a)"
| "float_gt NaN a = False"

fun float_sub :: "pyfloat \<Rightarrow> pyfloat \<Rightarrow> pyfloat" where
  "float_sub (Num x) (Num y) = Num (x - y)"
| "float_sub _ _ = NaN"

datatype exn = IndexError | ZeroDivisionError | ValueError

text \<open>Sequencing of computations that may raise.\<close>

fun and_then :: "exn + 'a \<Rightarrow> ('a \<Rightarrow> exn + 'b) \<Rightarrow> exn + 'b" where
  "and_then (Inl e) f = Inl e"
| "and_then (Inr x) f = f x"

text \<open>\<^verbatim>\<open>xs[i]\<close> for a non-negative index: IndexError out of range.\<close>

definition item :: "'a list \<Rightarrow> nat \<Rightarrow> exn + 'a" where
  "item xs i = (if i < length xs then Inr (xs ! i) else Inl IndexError)"

text \<open>
  One row of \<^verbatim>\<open>results\<close>: the index (dataset, algorithm, user) and the columns of the
  list analysis. A missing value is NaN.
\<close>

record row =
  dataset :: string
  algorithm :: string
  user :: int
  nrecs :: pyfloat
  ntruth :: pyfloat
  precision :: pyfloat
  recip_rank :: pyfloat
  ndcg :: pyfloat

datatype metric = Precision_m | Ndcg_m | Recip_rank_m

text \<open>\<^verbatim>\<open>data["precision"]\<close>, \<^verbatim>\<open>data["ndcg"]\<close>, \<^verbatim>\<open>data["recip_rank"]\<close>.\<close>

fun column :: "metric \<Rightarrow> row \<Rightarrow> pyfloat" where
  "column Precision_m r = precision r"
| "column Ndcg_m r = ndcg r"
| "column Recip_rank_m r = recip_rank r"

text \<open>\<^verbatim>\<open>results.fillna(0)\<close>: every NaN of every column becomes 0.\<close>

fun fill0 :: "pyfloat \<Rightarrow> pyfloat" where
  "fill0 NaN = Num 0"
| "fill0 (Num x) = Num x"

definition fillna0 :: "row list \<Rightarrow> row list" where
  "fillna0 t = map (\<lambda>r. r\<lparr>nrecs := fill0 (nrecs r), ntruth := fill0 (ntruth r),
                            precision := fill0 (precision r),
                            recip_rank := fill0 (recip_rank r),
                            ndcg := fill0 (ndcg r)\<rparr>) t"

text \<open>
  \<^verbatim>\<open>results.reset_index().groupby("algorithm")\<close>: one group per algorithm identifier,
  the groups in sorted order of the identifier, the rows of a group in table order.
\<close>

definition groupby_algorithm :: "row list \<Rightarrow> (string \<times> row list) list" where
  "groupby_algorithm t =
     map (\<lambda>a. (a, filter (\<lambda>r. algorithm r = a) t)) (sort (remdups (map algorithm t)))"

subsection \<open>Output records and the notebook's global variables\<close>

text \<open>The \<^verbatim>\<open>pd.Series\<close> returned by \<^verbatim>\<open>wilcox_bonf\<close>.\<close>

record comparison =
  Pair_names :: "string \<times> string"
  Statistics :: pyfloat
  p_value :: pyfloat
  Decision :: string

text \<open>
  The two kinds of printed line: \<^verbatim>\<open>'Statistics=%.3f, p=%.3f'\<close> after the Friedman test
  and \<^verbatim>\<open>'%s, Statistics=%.3f, p-value=%.3f, %s'\<close> after each Wilcoxon test.
\<close>

datatype line = Omnibus pyfloat pyfloat | Pairwise comparison

record globals =
  results :: "row list"
  alg_vals :: "pyfloat list list"
  alg_names :: "string list"
  n_compare :: "(nat \<times> nat) list"
  stdout :: "line list"

type_synonym friedman_test =
  "pyfloat list \<Rightarrow> pyfloat list \<Rightarrow> pyfloat list \<Rightarrow> pyfloat list \<Rightarrow> exn + (pyfloat \<times> pyfloat)"

type_synonym wilcoxon_test =
  "pyfloat list \<Rightarrow> pyfloat list \<Rightarrow> exn + (pyfloat \<times> pyfloat)"

subsection \<open>The Friedman cell\<close>

text \<open>
  \<^verbatim>\<open>
  alg_vals = []
  alg_names = []
  for alg, data in (results.reset_index()).groupby("algorithm"):
      alg_names.append(alg)
      alg_vals.append(data["precision"].to_numpy())
  stat, p = friedmanchisquare(alg_vals[0], alg_vals[1], alg_vals[2], alg_vals[3])
  print('Statistics=%.3f, p=%.3f' % (stat, p))
  \<close>
\<close>

text \<open>The two lists the loop over the groups builds.\<close>

definition group_names :: "row list \<Rightarrow> string list" where
  "group_names t = map fst (groupby_algorithm t)"

definition group_values :: "metric \<Rightarrow> row list \<Rightarrow> pyfloat list list" where
  "group_values m t = map (\<lambda>(alg, data). map (column m) data) (groupby_algorithm t)"

text \<open>
  \<^verbatim>\<open>friedmanchisquare(alg_vals[0], alg_vals[1], alg_vals[2], alg_vals[3])\<close>: the arguments
  are evaluated from left to right, then the test is called.
\<close>

definition friedman_call :: "friedman_test \<Rightarrow> pyfloat list list \<Rightarrow> exn + (pyfloat \<times> pyfloat)" where
  "friedman_call friedmanchisquare vals =
     and_then (item vals 0) (\<lambda>v0.
     and_then (item vals 1) (\<lambda>v1.
     and_then (item vals 2) (\<lambda>v2.
     and_then (item vals 3) (\<lambda>v3.
     friedmanchisquare v0 v1 v2 v3))))"

definition friedman_cell :: "friedman_test \<Rightarrow> metric \<Rightarrow> globals \<Rightarrow> globals \<times> exn option" where
  "friedman_cell friedmanchisquare m g =
     (let g1 = g\<lparr>alg_vals := group_values m (results g),
                 alg_names := group_names (results g)\<rparr>
      in case friedman_call friedmanchisquare (alg_vals g1) of
           Inl e \<Rightarrow> (g1, Some e)
         | Inr (stat, p) \<Rightarrow> (g1\<lparr>stdout := stdout g1 @ [Omnibus stat p]\<rparr>, None))"

subsection \<open>The post-hoc cell\<close>

text \<open>\<^verbatim>\<open>itertools.combinations(xs, 2)\<close>: the pairs of positions i < j, in lexicographic order.\<close>

fun combinations2 :: "'a list \<Rightarrow> ('a \<times> 'a) list" where
  "combinations2 [] = []"
| "combinations2 (x # xs) = map (Pair x) xs @ combinations2 xs"

definition decision_same :: string where
  "decision_same = ''Metric is the same (fail to reject H0)''"

definition decision_different :: string where
  "decision_different = ''Metric is different (reject H0)''"

text \<open>
  \<^verbatim>\<open>
  def wilcox_bonf(data1, data2, alg_pair):
      alpha = 0.05
      stat, p = wilcoxon(data1, data2)
      #Calculate Bonferroni adjustment
      new_alpha = alpha/len(n_compare)
      if p > new_alpha:
          decision = 'Metric is the same (fail to reject H0)'
      else:
          decision = 'Metric is different (reject H0)'
      return pd.Series({'Pair': alg_pair, 'Statistics': stat, 'p_value': p, 'Decision':decision})
  \<close>
  The function reads the global \<^verbatim>\<open>n_compare\<close>; the model takes it as an argument.
\<close>

definition alpha :: real where
  "alpha = 0.05"

definition wilcox_bonf ::
  "wilcoxon_test \<Rightarrow> (nat \<times> nat) list \<Rightarrow> pyfloat list \<Rightarrow> pyfloat list \<Rightarrow> string \<times> string
     \<Rightarrow> exn + comparison" where
  "wilcox_bonf wilcoxon n_cmp data1 data2 alg_pair =
     and_then (wilcoxon data1 data2) (\<lambda>(stat, p).
       if length n_cmp = 0 then Inl ZeroDivisionError
       else let new_alpha = alpha / real (length n_cmp);
                decision = (if float_gt p new_alpha then decision_same else decision_different)
            in Inr \<lparr>Pair_names = alg_pair, Statistics = stat, p_value = p, Decision = decision\<rparr>)"

text \<open>
  \<^verbatim>\<open>
  for idx in n_compare:
      result = wilcox_bonf(alg_vals[idx[0]], alg_vals[idx[1]], (alg_names[idx[0]], alg_names[idx[1]]))
      print('%s, Statistics=%.3f, p-value=%.3f, %s' % (result['Pair'], ...))
  \<close>
\<close>

definition pair_call ::
  "wilcoxon_test \<Rightarrow> (nat \<times> nat) list \<Rightarrow> pyfloat list list \<Rightarrow> string list \<Rightarrow> nat \<times> nat
     \<Rightarrow> exn + comparison" where
  "pair_call wilcoxon n_cmp vals names idx =
     and_then (item vals (fst idx)) (\<lambda>data1.
     and_then (item vals (snd idx)) (\<lambda>data2.
     and_then (item names (fst idx)) (\<lambda>name1.
     and_then (item names (snd idx)) (\<lambda>name2.
     wilcox_bonf wilcoxon n_cmp data1 data2 (name1, name2)))))"

fun posthoc_loop :: "wilcoxon_test \<Rightarrow> (nat \<times> nat) list \<Rightarrow> globals \<Rightarrow> globals \<times> exn option" where
  "posthoc_loop wilcoxon [] g = (g, None)"
| "posthoc_loop wilcoxon (idx # rest) g =
     (case pair_call wilcoxon (n_compare g) (alg_vals g) (alg_names g) idx of
        Inl e \<Rightarrow> (g, Some e)
      | Inr result \<Rightarrow> posthoc_loop wilcoxon rest (g\<lparr>stdout := stdout g @ [Pairwise result]\<rparr>))"

text \<open>\<^verbatim>\<open>n_compare = list(combinations(list(range(4)), 2))\<close>, then the loop.\<close>

definition posthoc_cell :: "wilcoxon_test \<Rightarrow> globals \<Rightarrow> globals \<times> exn option" where
  "posthoc_cell wilcoxon g =
     (let g1 = g\<lparr>n_compare := combinations2 [0..<4]\<rparr>
      in posthoc_loop wilcoxon (n_compare g1) g1)"

subsection \<open>One metric, and the whole run\<close>

text \<open>The two cells of a metric, one after the other; the second runs when the first returned.\<close>

definition evaluate_metric ::
  "friedman_test \<Rightarrow> wilcoxon_test \<Rightarrow> metric \<Rightarrow> globals \<Rightarrow> globals \<times> exn option" where
  "evaluate_metric friedmanchisquare wilcoxon m g =
     (case friedman_cell friedmanchisquare m g of
        (g1, Some e) \<Rightarrow> (g1, Some e)
      | (g1, None) \<Rightarrow> posthoc_cell wilcoxon g1)"

fun evaluate_metrics ::
  "friedman_test \<Rightarrow> wilcoxon_test \<Rightarrow> metric list \<Rightarrow> globals \<Rightarrow> globals \<times> exn option" where
  "evaluate_metrics friedmanchisquare wilcoxon [] g = (g, None)"
| "evaluate_metrics friedmanchisquare wilcoxon (m # ms) g =
     (case evaluate_metric friedmanchisquare wilcoxon m g of
        (g1, Some e) \<Rightarrow> (g1, Some e)
      | (g1, None) \<Rightarrow> evaluate_metrics friedmanchisquare wilcoxon ms g1)"

text \<open>
  The run from the metric table on: \<^verbatim>\<open>results = results.fillna(0)\<close>, then the sections
  Precision, ndcg and recip_rank in the order of the notebook. \<open>computed\<close> is what
  \<^verbatim>\<open>rla.compute(recs, test, include_missing=True)\<close> returned. No global of the
  analysis is bound before its first assignment; the model starts them empty.
\<close>

definition session :: "row list \<Rightarrow> globals" where
  "session t = \<lparr>results = t, alg_vals = [], alg_names = [], n_compare = [], stdout = []\<rparr>"

definition run_notebook :: "friedman_test \<Rightarrow> wilcoxon_test \<Rightarrow> row list \<Rightarrow> globals \<times> exn option" where
  "run_notebook friedmanchisquare wilcoxon computed =
     evaluate_metrics friedmanchisquare wilcoxon [Precision_m, Ndcg_m, Recip_rank_m]
       (session (fillna0 computed))"

subsection \<open>Reading the output\<close>

text \<open>The lines a step added to the standard output, and the records of each kind among them.\<close>

definition printed :: "globals \<Rightarrow> globals \<Rightarrow> line list" where
  "printed g g' = drop (length (stdout g)) (stdout g')"

fun pairwise_records :: "line list \<Rightarrow> comparison list" where
  "pairwise_records [] = []"
| "pairwise_records (Pairwise r # ls) = r # pairwise_records ls"
| "pairwise_records (Omnibus s p # ls) = pairwise_records ls"

fun omnibus_records :: "line list \<Rightarrow> (pyfloat \<times> pyfloat) list" where
  "omnibus_records [] = []"
| "omnibus_records (Omnibus s p # ls) = (s, p) # omnibus_records ls"
| "omnibus_records (Pairwise r # ls) = omnibus_records ls"

text \<open>
  The lines and the exception of the post-hoc loop and of a metric's two cells, as functions
  of what the cells read: the proofs below relate the state-passing cells to them.
\<close>

fun posthoc_lines ::
  "wilcoxon_test \<Rightarrow> (nat \<times> nat) list \<Rightarrow> pyfloat list list \<Rightarrow> string list \<Rightarrow> (nat \<times> nat) list
     \<Rightarrow> line list \<times> exn option" where
  "posthoc_lines wilcoxon n_cmp vals names [] = ([], None)"
| "posthoc_lines wilcoxon n_cmp vals names (idx # rest) =
     (case pair_call wilcoxon n_cmp vals names idx of
        Inl e \<Rightarrow> ([], Some e)
      | Inr result \<Rightarrow>
          (Pairwise result # fst (posthoc_lines wilcoxon n_cmp vals names rest),
           snd (posthoc_lines wilcoxon n_cmp vals names rest)))"

definition metric_output ::
  "friedman_test \<Rightarrow> wilcoxon_test \<Rightarrow> metric \<Rightarrow> row list \<Rightarrow> line list \<times> exn option" where
  "metric_output friedmanchisquare wilcoxon m t =
     (case friedman_call friedmanchisquare (group_values m t) of
        Inl e \<Rightarrow> ([], Some e)
      | Inr (stat, p) \<Rightarrow>
          (Omnibus stat p #
             fst (posthoc_lines wilcoxon (combinations2 [0..<4]) (group_values m t) (group_names t)
                    (combinations2 [0..<4])),
           snd (posthoc_lines wilcoxon (combinations2 [0..<4]) (group_values m t) (group_names t)
                  (combinations2 [0..<4]))))"

text \<open>The record the loop prints for a pair of positions when the test returns.\<close>

definition comparison_at ::
  "wilcoxon_test \<Rightarrow> (nat \<times> nat) list \<Rightarrow> pyfloat list list \<Rightarrow> string list \<Rightarrow> nat \<times> nat \<Rightarrow> comparison" where
  "comparison_at wilcoxon n_cmp vals names idx =
     \<lparr>Pair_names = (names ! fst idx, names ! snd idx),
      Statistics = fst (projr (wilcoxon (vals ! fst idx) (vals ! snd idx))),
      p_value = snd (projr (wilcoxon (vals ! fst idx) (vals ! snd idx))),
      Decision = (if float_gt (snd (projr (wilcoxon (vals ! fst idx) (vals ! snd idx))))
                       (alpha / real (length n_cmp))
                  then decision_same else decision_different)\<rparr>"

text \<open>The reading of the omnibus result in the notebook's text: \<^verbatim>\<open>p < 0.05\<close>.\<close>

fun float_lt :: "pyfloat \<Rightarrow> real \<Rightarrow> bool" where
  "float_lt (Num x) a = (x < a)"
| "float_lt NaN a = False"

text \<open>\<^verbatim>\<open>p <= new_alpha\<close>, the comparison a decision is measured against; false for NaN.\<close>

fun float_le :: "pyfloat \<Rightarrow> real \<Rightarrow> bool" where
  "float_le (Num x) a = (x \<le> a)"
| "float_le NaN a = False"

text \<open>The table restricted to the first four groups of the sorted grouping.\<close>

definition first_four :: "row list \<Rightarrow> row list" where
  "first_four t = filter (\<lambda>r. algorithm r \<in> set (take 4 (group_names t))) t"


text \<open>All matched-pair differences of two vectors are zero.\<close>

definition all_zero_differences :: "pyfloat list \<Rightarrow> pyfloat list \<Rightarrow> bool" where
  "all_zero_differences data1 data2 =
     (length data1 = length data2 \<and> list_all (\<lambda>(x, y). float_sub x y = Num 0) (zip data1 data2))"

subsection \<open>How often the threshold is computed\<close>

text \<open>
  The number of times an execution evaluates \<^verbatim>\<open>alpha/len(n_compare)\<close>. The line stands in
  the body of \<^verbatim>\<open>wilcox_bonf\<close> after the call of the test: a call of \<^verbatim>\<open>wilcox_bonf\<close>
  executes it once when the test returned and not at all when the test raised. The loop
  calls \<^verbatim>\<open>wilcox_bonf\<close> for each pair it reaches, once its arguments are looked up, and ends
  at the first exception.
\<close>

definition wilcox_bonf_divisions :: "wilcoxon_test \<Rightarrow> pyfloat list \<Rightarrow> pyfloat list \<Rightarrow> nat" where
  "wilcox_bonf_divisions wilcoxon data1 data2 =
     (case wilcoxon data1 data2 of Inl e \<Rightarrow> 0 | Inr r \<Rightarrow> 1)"

fun threshold_evaluations ::
  "wilcoxon_test \<Rightarrow> (nat \<times> nat) list \<Rightarrow> pyfloat list list \<Rightarrow> string list \<Rightarrow> (nat \<times> nat) list \<Rightarrow> nat" where
  "threshold_evaluations wilcoxon n_cmp vals names [] = 0"
| "threshold_evaluations wilcoxon n_cmp vals names (idx # rest) =
     (if fst idx < length vals \<and> snd idx < length vals \<and>
         fst idx < length names \<and> snd idx < length names
      then wilcox_bonf_divisions wilcoxon (vals ! fst idx) (vals ! snd idx) else 0) +
     (case pair_call wilcoxon n_cmp vals names idx of
        Inl e \<Rightarrow> 0
      | Inr result \<Rightarrow> threshold_evaluations wilcoxon n_cmp vals names rest)"

subsection \<open>Stand-ins for the library tests and sample tables\<close>

text \<open>
  Concrete inputs for evaluating the model: tests that return a fixed statistic and
  p-value, two signed-rank tests that treat a pair with all differences zero specially,
  one raising \<^verbatim>\<open>ValueError\<close> and one returning a NaN p-value, and one that raises on a
  vector that holds a NaN.
\<close>

definition friedman_returns :: "pyfloat \<Rightarrow> pyfloat \<Rightarrow> friedman_test" where
  "friedman_returns stat p = (\<lambda>v0 v1 v2 v3. Inr (stat, p))"

definition wilcoxon_returns :: "pyfloat \<Rightarrow> pyfloat \<Rightarrow> wilcoxon_test" where
  "wilcoxon_returns stat p = (\<lambda>data1 data2. Inr (stat, p))"

definition wilcoxon_zero_raises :: "pyfloat \<Rightarrow> pyfloat \<Rightarrow> wilcoxon_test" where
  "wilcoxon_zero_raises stat p =
     (\<lambda>data1 data2. if all_zero_differences data1 data2 then Inl ValueError else Inr (stat, p))"


definition wilcoxon_zero_nan :: "pyfloat \<Rightarrow> pyfloat \<Rightarrow> wilcoxon_test" where
  "wilcoxon_zero_nan stat p =
     (\<lambda>data1 data2. if all_zero_differences data1 data2 then Inr (Num 0, NaN) else Inr (stat, p))"

text \<open>A row: algorithm, user, precision, recip_rank, ndcg.\<close>

definition obs :: "string \<Rightarrow> int \<Rightarrow> pyfloat \<Rightarrow> pyfloat \<Rightarrow> pyfloat \<Rightarrow> row" where
  "obs a u v_precision v_recip_rank v_ndcg =
     \<lparr>dataset = ''ml100k'', algorithm = a, user = u, nrecs = Num 10, ntruth = Num 5,
      precision = v_precision, recip_rank = v_recip_rank, ndcg = v_ndcg\<rparr>"

text \<open>Four algorithms and two users, the rows not in the order of the identifiers.\<close>

definition table_four :: "row list" where
  "table_four =
     [obs ''UU'' 1 (Num 0.5) (Num 1) (Num 0.6), obs ''ALS'' 1 (Num 0.25) (Num 0.5) (Num 0.3),
      obs ''II'' 1 (Num 0.1) (Num 0.2) (Num 0.1), obs ''IALS'' 1 (Num 1) (Num 1) (Num 0.9),
      obs ''UU'' 2 (Num 0) (Num 0) (Num 0), obs ''ALS'' 2 (Num 0.75) (Num 1) (Num 0.8),
      obs ''II'' 2 (Num 0.5) (Num 0.5) (Num 0.4), obs ''IALS'' 2 (Num 0.2) (Num 0.25) (Num 0.3)]"


definition table_five :: "row list" where
  "table_five =
     table_four @ [obs ''Pop'' 1 (Num 0.1) (Num 0.2) (Num 0.15), obs ''Pop'' 2 (Num 0.2) (Num 0.25) (Num 0.2)]"

definition table_one :: "row list" where
  "table_one = [obs ''ALS'' 1 (Num 0.25) (Num 0.5) (Num 0.3), obs ''ALS'' 2 (Num 0.75) (Num 1) (Num 0.8)]"

text \<open>ALS and IALS agree on the precision of every user, and differ on the other metrics.\<close>

definition table_tied :: "row list" where
  "table_tied =
     [obs ''ALS'' 1 (Num 0.25) (Num 0.5) (Num 0.3), obs ''IALS'' 1 (Num 0.25) (Num 1) (Num 0.9),
      obs ''II'' 1 (Num 0.5) (Num 0.25) (Num 0.2), obs ''UU'' 1 (Num 0.5) (Num 1) (Num 0.6),
      obs ''ALS'' 2 (Num 0.75) (Num 1) (Num 0.8), obs ''IALS'' 2 (Num 0.75) (Num 0.5) (Num 0.4),
      obs ''II'' 2 (Num 0.5) (Num 0.5) (Num 0.4), obs ''UU'' 2 (Num 0) (Num 0) (Num 0)]"

text \<open>IALS and II agree on the precision of every user: the fourth pair compared is tied.\<close>

definition table_late_tie :: "row list" where
  "table_late_tie =
     [obs ''ALS'' 1 (Num 0.25) (Num 0.5) (Num 0.3), obs ''IALS'' 1 (Num 1) (Num 1) (Num 0.9),
      obs ''II'' 1 (Num 1) (Num 0.25) (Num 0.2), obs ''UU'' 1 (Num 0.5) (Num 1) (Num 0.6),
      obs ''ALS'' 2 (Num 0.75) (Num 1) (Num 0.8), obs ''IALS'' 2 (Num 0.2) (Num 0.5) (Num 0.4),
      obs ''II'' 2 (Num 0.2) (Num 0.5) (Num 0.4), obs ''UU'' 2 (Num 0) (Num 0) (Num 0)]"

section \<open>Properties\<close>

subsection \<open>The cells as functions of what they read\<close>

lemma posthoc_loop_lines:
  "posthoc_loop wx idxs g =
     (g\<lparr>stdout := stdout g @ fst (posthoc_lines wx (n_compare g) (alg_vals g) (alg_names g) idxs)\<rparr>,
      snd (posthoc_lines wx (n_compare g) (alg_vals g) (alg_names g) idxs))"
  by (induction idxs arbitrary: g) (auto split: sum.splits)

lemma evaluate_metric_stdout:
  "stdout (fst (evaluate_metric fr wx m g)) = stdout g @ fst (metric_output fr wx m (results g))"
  by (simp add: evaluate_metric_def friedman_cell_def posthoc_cell_def metric_output_def
        posthoc_loop_lines split: sum.splits prod.splits)

lemma evaluate_metric_exn:
  "snd (evaluate_metric fr wx m g) = snd (metric_output fr wx m (results g))"
  by (simp add: evaluate_metric_def friedman_cell_def posthoc_cell_def metric_output_def
        posthoc_loop_lines split: sum.splits prod.splits)

lemma evaluate_metric_results:
  "results (fst (evaluate_metric fr wx m g)) = results g"
  by (simp add: evaluate_metric_def friedman_cell_def posthoc_cell_def Let_def
        posthoc_loop_lines split: sum.splits prod.splits)

lemma evaluate_metric_printed:
  "printed g (fst (evaluate_metric fr wx m g)) = fst (metric_output fr wx m (results g))"
  by (simp add: printed_def evaluate_metric_stdout)

subsection \<open>Pairs of positions\<close>

lemma upt_4: "[0..<4] = [0, 1, 2, 3]"
  by (simp add: upt_rec)

lemma six_pairs: "combinations2 [0..<4] = [(0, 1), (0, 2), (0, 3), (1, 2), (1, 3), (2, 3)]"
  by (simp add: upt_4)

lemma length_4_cases: "length xs = 4 \<Longrightarrow> \<exists>a b c d. xs = [a, b, c, d]"
  by (auto simp: numeral_eq_Suc length_Suc_conv)

lemma combinations2_nth4:
  assumes "length xs = 4"
  shows "map (\<lambda>(i, j). (xs ! i, xs ! j)) (combinations2 [0..<4]) = combinations2 xs"
proof -
  from assms obtain a b c d where "xs = [a, b, c, d]"
    using length_4_cases by blast
  then show ?thesis by (simp add: six_pairs)
qed

lemma combinations2_members:
  "(a, b) \<in> set (combinations2 xs) \<Longrightarrow> a \<in> set xs \<and> b \<in> set xs"
  by (induction xs) auto

lemma set_combinations2:
  "sorted xs \<Longrightarrow> distinct xs \<Longrightarrow>
     set (combinations2 xs) = {(a, b). a \<in> set xs \<and> b \<in> set xs \<and> a < b}"
  by (induction xs) (auto simp: less_le)

lemma distinct_combinations2: "distinct xs \<Longrightarrow> distinct (combinations2 xs)"
proof (induction xs)
  case Nil
  then show ?case by simp
next
  case (Cons x xs)
  have "distinct (map (Pair x) xs)"
    using Cons.prems by (simp add: distinct_map inj_on_def)
  moreover have "set (map (Pair x) xs) \<inter> set (combinations2 xs) = {}"
    using Cons.prems combinations2_members by fastforce
  ultimately show ?case using Cons by simp
qed

lemma length_combinations2: "length (combinations2 xs) = length xs choose 2"
  by (induction xs) (simp_all add: numeral_2_eq_2)

lemma sorted_combinations2:
  "sorted xs \<Longrightarrow> distinct xs \<Longrightarrow>
     sorted_wrt (\<lambda>(a, b) (c, d). a < c \<or> (a = c \<and> b < d)) (combinations2 xs)"
proof (induction xs)
  case Nil
  then show ?case by simp
next
  case (Cons x xs)
  have "sorted_wrt (<) xs"
    using Cons.prems by (simp add: strict_sorted_iff)
  then have 1: "sorted_wrt (\<lambda>(a, b) (c, d). a < c \<or> (a = c \<and> b < d)) (map (Pair x) xs)"
    by (simp add: sorted_wrt_map)
  have 2: "\<forall>p \<in> set (map (Pair x) xs). \<forall>q \<in> set (combinations2 xs).
             (\<lambda>(a, b) (c, d). a < c \<or> (a = c \<and> b < d)) p q"
    using Cons.prems combinations2_members by (fastforce simp: less_le)
  show ?case using 1 2 Cons by (simp add: sorted_wrt_append)
qed

subsection \<open>The calls\<close>

lemma friedman_call_short: "length vals < 4 \<Longrightarrow> friedman_call fr vals = Inl IndexError"
  by (cases vals rule: list.exhaust) (auto simp: friedman_call_def item_def numeral_eq_Suc less_Suc_eq_0_disj)

lemma friedman_call_long:
  "4 \<le> length vals \<Longrightarrow> friedman_call fr vals = fr (vals ! 0) (vals ! 1) (vals ! 2) (vals ! 3)"
  by (auto simp: friedman_call_def item_def)

lemma friedman_call_Inr: "friedman_call fr vals = Inr x \<Longrightarrow> 4 \<le> length vals"
  using friedman_call_short [of vals fr] by (cases "length vals < 4") auto

lemma length_group_values: "length (group_values m t) = length (group_names t)"
  by (simp add: group_values_def group_names_def)

lemma group_names_sorted: "group_names t = sort (remdups (map algorithm t))"
  by (simp add: group_names_def groupby_algorithm_def comp_def)

lemma group_values_eq:
  "group_values m t = map (\<lambda>a. map (column m) (filter (\<lambda>r. algorithm r = a) t)) (group_names t)"
  by (simp add: group_values_def group_names_sorted groupby_algorithm_def comp_def)

lemma wilcox_bonf_returns:
  "wx data1 data2 = Inr (s, q) \<Longrightarrow> n_cmp \<noteq> [] \<Longrightarrow>
     wilcox_bonf wx n_cmp data1 data2 pr =
       Inr \<lparr>Pair_names = pr, Statistics = s, p_value = q,
            Decision = (if float_gt q (alpha / real (length n_cmp))
                        then decision_same else decision_different)\<rparr>"
  by (simp add: wilcox_bonf_def)

lemma pair_call_returns:
  assumes "fst idx < length vs" and "snd idx < length vs" and "length ns = length vs"
      and "n_cmp \<noteq> []" and "wx (vs ! fst idx) (vs ! snd idx) = Inr (s, q)"
  shows "pair_call wx n_cmp vs ns idx = Inr (comparison_at wx n_cmp vs ns idx)"
  using assms by (simp add: pair_call_def item_def wilcox_bonf_returns comparison_at_def)

lemma wilcox_bonf_decision_rule:
  assumes "wilcox_bonf wx n_cmp data1 data2 pr = Inr r"
  shows "Decision r = (if float_gt (p_value r) (alpha / real (length n_cmp))
                       then decision_same else decision_different)"
  using assms
  by (cases "wx data1 data2") (auto simp: wilcox_bonf_def Let_def split: if_splits)

lemma pair_call_decision:
  assumes "pair_call wx n_cmp vs ns idx = Inr r"
  shows "Decision r = (if float_gt (p_value r) (alpha / real (length n_cmp))
                       then decision_same else decision_different)"
  using assms wilcox_bonf_decision_rule
  by (fastforce simp: pair_call_def item_def split: if_splits)

subsection \<open>The lines of the loop\<close>

lemma pairwise_records_map: "pairwise_records (map (\<lambda>x. Pairwise (f x)) xs) = map f xs"
  by (induction xs) simp_all

lemma omnibus_records_map: "omnibus_records (map (\<lambda>x. Pairwise (f x)) xs) = []"
  by (induction xs) simp_all

lemma posthoc_lines_total:
  "\<forall>idx \<in> set idxs. pair_call wx n_cmp vs ns idx = Inr (R idx) \<Longrightarrow>
     posthoc_lines wx n_cmp vs ns idxs = (map (\<lambda>idx. Pairwise (R idx)) idxs, None)"
  by (induction idxs) simp_all

lemma posthoc_lines_cong:
  "\<forall>idx \<in> set idxs. pair_call wx n_cmp vs ns idx = pair_call wx' n_cmp' vs' ns' idx \<Longrightarrow>
     posthoc_lines wx n_cmp vs ns idxs = posthoc_lines wx' n_cmp' vs' ns' idxs"
proof (induction idxs)
  case Nil
  then show ?case by simp
next
  case (Cons idx idxs)
  then have "posthoc_lines wx n_cmp vs ns idxs = posthoc_lines wx' n_cmp' vs' ns' idxs"
        and "pair_call wx n_cmp vs ns idx = pair_call wx' n_cmp' vs' ns' idx"
    by simp_all
  then show ?case by (simp split: sum.splits)
qed

lemma posthoc_lines_decision:
  "r \<in> set (pairwise_records (fst (posthoc_lines wx n_cmp vs ns idxs))) \<Longrightarrow>
     Decision r = (if float_gt (p_value r) (alpha / real (length n_cmp))
                   then decision_same else decision_different)"
  by (induction idxs) (auto split: sum.splits dest: pair_call_decision)

lemma posthoc_lines_count:
  "snd (posthoc_lines wx n_cmp vs ns idxs) = None \<Longrightarrow>
     length (pairwise_records (fst (posthoc_lines wx n_cmp vs ns idxs))) = length idxs"
  by (induction idxs) (auto split: sum.splits)

lemma posthoc_lines_no_omnibus:
  "omnibus_records (fst (posthoc_lines wx n_cmp vs ns idxs)) = []"
  by (induction idxs) (auto split: sum.splits)

subsection \<open>A metric's two cells\<close>

lemma evaluate_metric_closed:
  "evaluate_metric fr wx m g =
     (g\<lparr>alg_vals := group_values m (results g), alg_names := group_names (results g),
        n_compare := (if fst (metric_output fr wx m (results g)) = [] then n_compare g
                      else combinations2 [0..<4]),
        stdout := stdout g @ fst (metric_output fr wx m (results g))\<rparr>,
      snd (metric_output fr wx m (results g)))"
  by (simp add: evaluate_metric_def friedman_cell_def posthoc_cell_def metric_output_def Let_def
        posthoc_loop_lines split: sum.splits prod.splits)

lemma metric_output_complete:
  assumes fr: "friedman_call fr (group_values m t) = Inr (stat, p)"
      and wx: "\<forall>idx \<in> set (combinations2 [0..<4]).
                 \<exists>s q. wx (group_values m t ! fst idx) (group_values m t ! snd idx) = Inr (s, q)"
  shows "metric_output fr wx m t =
           (Omnibus stat p #
              map (\<lambda>idx. Pairwise (comparison_at wx (combinations2 [0..<4]) (group_values m t)
                                     (group_names t) idx))
                (combinations2 [0..<4]),
            None)"
proof -
  have len: "4 \<le> length (group_values m t)"
    using fr by (rule friedman_call_Inr)
  have "\<forall>idx \<in> set (combinations2 [0..<4]).
          pair_call wx (combinations2 [0..<4]) (group_values m t) (group_names t) idx =
            Inr (comparison_at wx (combinations2 [0..<4]) (group_values m t) (group_names t) idx)"
  proof
    fix idx assume idx: "idx \<in> set (combinations2 [0..<4])"
    then have "fst idx < 4" and "snd idx < 4"
      by (auto simp: six_pairs)
    moreover obtain s q where "wx (group_values m t ! fst idx) (group_values m t ! snd idx) = Inr (s, q)"
      using wx idx by blast
    ultimately show "pair_call wx (combinations2 [0..<4]) (group_values m t) (group_names t) idx =
            Inr (comparison_at wx (combinations2 [0..<4]) (group_values m t) (group_names t) idx)"
      using len by (intro pair_call_returns) (auto simp: length_group_values six_pairs)
  qed
  then have "posthoc_lines wx (combinations2 [0..<4]) (group_values m t) (group_names t)
               (combinations2 [0..<4]) =
             (map (\<lambda>idx. Pairwise (comparison_at wx (combinations2 [0..<4]) (group_values m t)
                                     (group_names t) idx)) (combinations2 [0..<4]), None)"
    by (rule posthoc_lines_total)
  then show ?thesis
    using fr by (simp add: metric_output_def)
qed


subsection \<open>The first four groups\<close>

lemma item_take: "i < n \<Longrightarrow> item (take n xs) i = item xs i"
  by (simp add: item_def)

lemma friedman_call_take: "friedman_call fr (take 4 vals) = friedman_call fr vals"
  by (simp add: friedman_call_def item_take)

lemma pair_call_take:
  "fst idx < 4 \<Longrightarrow> snd idx < 4 \<Longrightarrow>
     pair_call wx n_cmp (take 4 vs) (take 4 ns) idx = pair_call wx n_cmp vs ns idx"
  by (simp add: pair_call_def item_take)

lemma group_names_first_four: "group_names (first_four t) = take 4 (group_names t)"
proof -
  let ?S = "set (take 4 (group_names t))"
  have sub: "?S \<subseteq> algorithm ` set t"
    using set_take_subset [of 4 "group_names t"] by (simp add: group_names_sorted)
  have "set (group_names (first_four t)) = algorithm ` set (first_four t)"
    by (simp add: group_names_sorted)
  also have "\<dots> = algorithm ` {r \<in> set t. algorithm r \<in> ?S}"
    by (simp add: first_four_def)
  also have "\<dots> = ?S"
    using sub by auto
  finally have "set (group_names (first_four t)) = ?S" .
  moreover have "sorted (group_names (first_four t))" "distinct (group_names (first_four t))"
    by (simp_all add: group_names_sorted)
  moreover have "sorted (take 4 (group_names t))" "distinct (take 4 (group_names t))"
    by (simp_all add: group_names_sorted)
  ultimately show ?thesis
    by (intro sorted_distinct_set_unique) simp_all
qed

lemma group_values_first_four: "group_values m (first_four t) = take 4 (group_values m t)"
proof -
  have "\<And>a. a \<in> set (take 4 (group_names t)) \<Longrightarrow>
          filter (\<lambda>r. algorithm r = a) (first_four t) = filter (\<lambda>r. algorithm r = a) t"
    by (auto simp: first_four_def intro: filter_cong)
  then show ?thesis
    by (simp add: group_values_eq [of m "first_four t"] group_values_eq [of m t]
          group_names_first_four take_map)
qed

lemma metric_output_first_four: "metric_output fr wx m (first_four t) = metric_output fr wx m t"
proof -
  have "posthoc_lines wx (combinations2 [0..<4]) (take 4 (group_values m t)) (take 4 (group_names t))
          (combinations2 [0..<4]) =
        posthoc_lines wx (combinations2 [0..<4]) (group_values m t) (group_names t)
          (combinations2 [0..<4])"
    by (rule posthoc_lines_cong) (auto simp: six_pairs pair_call_take)
  then show ?thesis
    by (simp add: metric_output_def group_names_first_four group_values_first_four
          friedman_call_take split: sum.splits)
qed

subsection \<open>Filling the missing values\<close>





subsection \<open>The metrics in sequence\<close>

lemma evaluate_metrics_stops:
  "snd (evaluate_metrics fr wx ms g) = Some e \<Longrightarrow>
     evaluate_metrics fr wx (ms @ ms') g = evaluate_metrics fr wx ms g"
  by (induction ms arbitrary: g) (auto split: prod.splits option.splits)

subsection \<open>The sample tables, grouped\<close>

lemma names_four: "group_names table_four = [''ALS'', ''IALS'', ''II'', ''UU'']"
  by (simp add: group_names_def groupby_algorithm_def table_four_def obs_def)

lemma names_five: "group_names table_five = [''ALS'', ''IALS'', ''II'', ''Pop'', ''UU'']"
  by (simp add: group_names_def groupby_algorithm_def table_five_def table_four_def obs_def)

lemma names_one: "group_names table_one = [''ALS'']"
  by (simp add: group_names_def groupby_algorithm_def table_one_def obs_def)

lemma names_tied: "group_names table_tied = [''ALS'', ''IALS'', ''II'', ''UU'']"
  by (simp add: group_names_def groupby_algorithm_def table_tied_def obs_def)

lemma precision_four: "group_values Precision_m table_four =
   [[Num 0.25, Num 0.75], [Num 1, Num 0.2], [Num 0.1, Num 0.5], [Num 0.5, Num 0]]"
  by (simp add: group_values_def groupby_algorithm_def table_four_def obs_def)


lemma precision_tied: "group_values Precision_m table_tied =
   [[Num 0.25, Num 0.75], [Num 0.25, Num 0.75], [Num 0.5, Num 0.5], [Num 0.5, Num 0]]"
  by (simp add: group_values_def groupby_algorithm_def table_tied_def obs_def)

lemma ndcg_tied: "group_values Ndcg_m table_tied =
   [[Num 0.3, Num 0.8], [Num 0.9, Num 0.4], [Num 0.2, Num 0.4], [Num 0.6, Num 0]]"
  by (simp add: group_values_def groupby_algorithm_def table_tied_def obs_def)

lemma friedman_call_returns:
  "4 \<le> length vals \<Longrightarrow> friedman_call (friedman_returns s p) vals = Inr (s, p)"
  by (simp add: friedman_call_long friedman_returns_def)

lemma metric_output_short:
  "length (group_names t) < 4 \<Longrightarrow> metric_output fr wx m t = ([], Some IndexError)"
  by (simp add: metric_output_def friedman_call_short length_group_values)

subsection \<open>The metrics in sequence, continued\<close>

lemma evaluate_metrics_first_fails:
  "snd (evaluate_metric fr wx m g) = Some e \<Longrightarrow>
     evaluate_metrics fr wx (m # ms) g = evaluate_metric fr wx m g"
  by (cases "evaluate_metric fr wx m g") simp


subsection \<open>Tests that agree on vectors without NaN\<close>





subsection \<open>The stand-ins, evaluated\<close>

lemma metric_output_returns:
  assumes "4 \<le> length (group_names t)"
  shows "metric_output (friedman_returns s p) (wilcoxon_returns s' p') m t =
           (Omnibus s p #
              map (\<lambda>idx. Pairwise \<lparr>Pair_names = (group_names t ! fst idx, group_names t ! snd idx),
                                   Statistics = s', p_value = p',
                                   Decision = (if float_gt p' (0.05 / 6) then decision_same
                                               else decision_different)\<rparr>)
                (combinations2 [0..<4]),
            None)"
proof -
  have "friedman_call (friedman_returns s p) (group_values m t) = Inr (s, p)"
    using assms by (simp add: friedman_call_returns length_group_values)
  moreover have "\<forall>idx \<in> set (combinations2 [0..<4]).
       \<exists>a b. wilcoxon_returns s' p' (group_values m t ! fst idx) (group_values m t ! snd idx) = Inr (a, b)"
    by (simp add: wilcoxon_returns_def)
  ultimately have "metric_output (friedman_returns s p) (wilcoxon_returns s' p') m t =
           (Omnibus s p #
              map (\<lambda>idx. Pairwise (comparison_at (wilcoxon_returns s' p') (combinations2 [0..<4])
                     (group_values m t) (group_names t) idx))
                (combinations2 [0..<4]),
            None)"
    by (rule metric_output_complete)
  then show ?thesis
    by (simp add: comparison_at_def wilcoxon_returns_def six_pairs alpha_def)
qed

lemma fillna0_tied: "fillna0 table_tied = table_tied"
  by (simp add: fillna0_def table_tied_def obs_def)

subsection \<open>The records of the loop, one by one\<close>

lemma posthoc_lines_only_pairwise:
  "map Pairwise (pairwise_records (fst (posthoc_lines wx n_cmp vs ns idxs))) =
     fst (posthoc_lines wx n_cmp vs ns idxs)"
  by (induction idxs) (auto split: sum.splits)

lemma posthoc_lines_records_nth:
  "i < length (pairwise_records (fst (posthoc_lines wx n_cmp vs ns idxs))) \<Longrightarrow>
     i < length idxs \<and>
     pair_call wx n_cmp vs ns (idxs ! i) =
       Inr (pairwise_records (fst (posthoc_lines wx n_cmp vs ns idxs)) ! i)"
proof (induction idxs arbitrary: i)
  case Nil
  then show ?case by simp
next
  case (Cons idx idxs)
  show ?case
  proof (cases "pair_call wx n_cmp vs ns idx")
    case (Inl e)
    then show ?thesis using Cons.prems by simp
  next
    case (Inr r)
    show ?thesis
    proof (cases i)
      case 0
      then show ?thesis using Inr by simp
    next
      case (Suc j)
      then have "j < length (pairwise_records (fst (posthoc_lines wx n_cmp vs ns idxs)))"
        using Cons.prems Inr by simp
      then show ?thesis
        using Cons.IH [of j] Inr Suc by simp
    qed
  qed
qed

lemma posthoc_lines_fails_at:
  assumes "k < length idxs"
      and "\<forall>i < k. pair_call wx n_cmp vs ns (idxs ! i) = Inr (R (idxs ! i))"
      and "pair_call wx n_cmp vs ns (idxs ! k) = Inl e"
  shows "posthoc_lines wx n_cmp vs ns idxs = (map (\<lambda>idx. Pairwise (R idx)) (take k idxs), Some e)"
  using assms
proof (induction idxs arbitrary: k)
  case Nil
  then show ?case by simp
next
  case (Cons idx idxs)
  show ?case
  proof (cases k)
    case 0
    then show ?thesis using Cons.prems by simp
  next
    case (Suc j)
    have first: "pair_call wx n_cmp vs ns idx = Inr (R idx)"
      using Cons.prems(2) Suc by auto
    have "j < length idxs"
      using Cons.prems(1) Suc by simp
    moreover have "\<forall>i < j. pair_call wx n_cmp vs ns (idxs ! i) = Inr (R (idxs ! i))"
      using Cons.prems(2) Suc by auto
    moreover have "pair_call wx n_cmp vs ns (idxs ! j) = Inl e"
      using Cons.prems(3) Suc by simp
    ultimately have "posthoc_lines wx n_cmp vs ns idxs =
        (map (\<lambda>idx. Pairwise (R idx)) (take j idxs), Some e)"
      by (rule Cons.IH)
    then show ?thesis
      using first Suc by simp
  qed
qed

lemma pair_call_in_range:
  assumes "fst idx < length vs" and "snd idx < length vs" and "length ns = length vs"
  shows "pair_call wx n_cmp vs ns idx =
           wilcox_bonf wx n_cmp (vs ! fst idx) (vs ! snd idx) (ns ! fst idx, ns ! snd idx)"
  using assms by (simp add: pair_call_def item_def)

lemma wilcox_bonf_raises:
  "wx data1 data2 = Inl e \<Longrightarrow> wilcox_bonf wx n_cmp data1 data2 pr = Inl e"
  by (simp add: wilcox_bonf_def)

lemma wilcox_bonf_Inr:
  assumes "wilcox_bonf wx n_cmp data1 data2 pr = Inr r"
  shows "wx data1 data2 = Inr (Statistics r, p_value r) \<and> Pair_names r = pr \<and> n_cmp \<noteq> [] \<and>
         Decision r = (if float_gt (p_value r) (alpha / real (length n_cmp))
                       then decision_same else decision_different)"
  using assms
  by (cases "wx data1 data2") (auto simp: wilcox_bonf_def Let_def split: if_splits)

lemma threshold_evaluations_records:
  "n_cmp \<noteq> [] \<Longrightarrow>
     threshold_evaluations wx n_cmp vs ns idxs =
       length (pairwise_records (fst (posthoc_lines wx n_cmp vs ns idxs)))"
proof (induction idxs)
  case Nil
  then show ?case by simp
next
  case (Cons idx idxs)
  show ?case
  proof (cases "fst idx < length vs \<and> snd idx < length vs \<and> fst idx < length ns \<and> snd idx < length ns")
    case True
    then have pc: "pair_call wx n_cmp vs ns idx =
        wilcox_bonf wx n_cmp (vs ! fst idx) (vs ! snd idx) (ns ! fst idx, ns ! snd idx)"
      by (simp add: pair_call_def item_def)
    show ?thesis
    proof (cases "wx (vs ! fst idx) (vs ! snd idx)")
      case (Inl e)
      then show ?thesis
        using True pc by (simp add: wilcox_bonf_raises wilcox_bonf_divisions_def)
    next
      case (Inr sp)
      obtain s q where "sp = (s, q)" by (cases sp)
      then show ?thesis
        using True pc Inr Cons by (simp add: wilcox_bonf_returns wilcox_bonf_divisions_def)
    qed
  next
    case False
    then have "\<exists>e. pair_call wx n_cmp vs ns idx = Inl e"
      by (auto simp: pair_call_def item_def)
    then show ?thesis
      using False by auto
  qed
qed

subsection \<open>The lines of a metric, in order\<close>

lemma six_positions: "idx \<in> set (combinations2 [0..<4]) \<Longrightarrow> fst idx < 4 \<and> snd idx < 4"
  by (auto simp: six_pairs)

lemma metric_output_records:
  assumes fr: "friedman_call fr (group_values m t) = Inr (stat, p)"
  shows "fst (metric_output fr wx m t) =
           Omnibus stat p # map Pairwise (pairwise_records (fst (metric_output fr wx m t)))"
    and "length (pairwise_records (fst (metric_output fr wx m t))) \<le> 6"
    and "snd (metric_output fr wx m t) = None \<Longrightarrow>
           length (pairwise_records (fst (metric_output fr wx m t))) = 6"
    and "i < length (pairwise_records (fst (metric_output fr wx m t))) \<Longrightarrow>
           wx (group_values m t ! fst (combinations2 [0..<4] ! i))
              (group_values m t ! snd (combinations2 [0..<4] ! i)) =
             Inr (Statistics (pairwise_records (fst (metric_output fr wx m t)) ! i),
                  p_value (pairwise_records (fst (metric_output fr wx m t)) ! i)) \<and>
           Pair_names (pairwise_records (fst (metric_output fr wx m t)) ! i) =
             (group_names t ! fst (combinations2 [0..<4] ! i),
              group_names t ! snd (combinations2 [0..<4] ! i)) \<and>
           Decision (pairwise_records (fst (metric_output fr wx m t)) ! i) =
             (if float_gt (p_value (pairwise_records (fst (metric_output fr wx m t)) ! i)) (0.05 / 6)
              then decision_same else decision_different)"
proof -
  let ?six = "combinations2 [0..<4]"
  let ?ph = "posthoc_lines wx ?six (group_values m t) (group_names t) ?six"
  have out: "metric_output fr wx m t = (Omnibus stat p # fst ?ph, snd ?ph)"
    using fr by (simp add: metric_output_def)
  have recs: "pairwise_records (fst (metric_output fr wx m t)) = pairwise_records (fst ?ph)"
    by (simp add: out)
  show "fst (metric_output fr wx m t) =
           Omnibus stat p # map Pairwise (pairwise_records (fst (metric_output fr wx m t)))"
    by (simp only: recs posthoc_lines_only_pairwise) (simp add: out)
  have len4: "4 \<le> length (group_values m t)"
    using fr by (rule friedman_call_Inr)
  have nth: "j < length ?six \<and> pair_call wx ?six (group_values m t) (group_names t) (?six ! j) =
               Inr (pairwise_records (fst ?ph) ! j)"
    if "j < length (pairwise_records (fst ?ph))" for j
    using that by (rule posthoc_lines_records_nth)
  show le: "length (pairwise_records (fst (metric_output fr wx m t))) \<le> 6"
  proof (rule ccontr)
    assume "\<not> length (pairwise_records (fst (metric_output fr wx m t))) \<le> 6"
    then have "6 < length (pairwise_records (fst ?ph))"
      by (simp add: recs)
    then have "6 < length ?six"
      using nth [of 6] by simp
    then show False by (simp add: six_pairs)
  qed
  show "length (pairwise_records (fst (metric_output fr wx m t))) = 6"
    if "snd (metric_output fr wx m t) = None"
  proof -
    have "snd ?ph = None"
      using that by (simp add: out)
    then have "length (pairwise_records (fst ?ph)) = length ?six"
      by (rule posthoc_lines_count)
    then show ?thesis
      by (simp add: recs six_pairs)
  qed
  show "wx (group_values m t ! fst (?six ! i)) (group_values m t ! snd (?six ! i)) =
             Inr (Statistics (pairwise_records (fst (metric_output fr wx m t)) ! i),
                  p_value (pairwise_records (fst (metric_output fr wx m t)) ! i)) \<and>
           Pair_names (pairwise_records (fst (metric_output fr wx m t)) ! i) =
             (group_names t ! fst (?six ! i), group_names t ! snd (?six ! i)) \<and>
           Decision (pairwise_records (fst (metric_output fr wx m t)) ! i) =
             (if float_gt (p_value (pairwise_records (fst (metric_output fr wx m t)) ! i)) (0.05 / 6)
              then decision_same else decision_different)"
    if "i < length (pairwise_records (fst (metric_output fr wx m t)))"
  proof -
    have i: "i < length (pairwise_records (fst ?ph))"
      using that by (simp add: recs)
    then have mem: "?six ! i \<in> set ?six"
      and pc: "pair_call wx ?six (group_values m t) (group_names t) (?six ! i) =
               Inr (pairwise_records (fst ?ph) ! i)"
      using nth [OF i] by simp_all
    have "fst (?six ! i) < length (group_values m t)" "snd (?six ! i) < length (group_values m t)"
      using six_positions [OF mem] len4 by simp_all
    then have "wilcox_bonf wx ?six (group_values m t ! fst (?six ! i)) (group_values m t ! snd (?six ! i))
                 (group_names t ! fst (?six ! i), group_names t ! snd (?six ! i)) =
               Inr (pairwise_records (fst ?ph) ! i)"
      using pc by (simp add: pair_call_in_range length_group_values)
    from wilcox_bonf_Inr [OF this] show ?thesis
      by (simp add: recs six_pairs alpha_def)
  qed
qed

lemma omnibus_records_pairwise: "omnibus_records (map Pairwise rs) = []"
  by (induction rs) simp_all

lemma metric_output_raises:
  "friedman_call fr (group_values m t) = Inl e \<Longrightarrow> metric_output fr wx m t = ([], Some e)"
  by (simp add: metric_output_def)

lemma metric_output_fails_at:
  assumes fr: "friedman_call fr (group_values m t) = Inr (stat, p)"
      and k: "k < 6"
      and before: "\<forall>i < k. \<exists>s q. wx (group_values m t ! fst (combinations2 [0..<4] ! i))
                                     (group_values m t ! snd (combinations2 [0..<4] ! i)) = Inr (s, q)"
      and at: "wx (group_values m t ! fst (combinations2 [0..<4] ! k))
                  (group_values m t ! snd (combinations2 [0..<4] ! k)) = Inl e"
  shows "metric_output fr wx m t =
           (Omnibus stat p #
              map (\<lambda>idx. Pairwise (comparison_at wx (combinations2 [0..<4]) (group_values m t)
                                     (group_names t) idx))
                (take k (combinations2 [0..<4])),
            Some e)"
proof -
  let ?six = "combinations2 [0..<4]"
  let ?vs = "group_values m t"
  let ?ns = "group_names t"
  have len6: "length ?six = 6"
    by (simp add: six_pairs)
  have len4: "4 \<le> length ?vs"
    using fr by (rule friedman_call_Inr)
  have range: "fst (?six ! i) < length ?vs \<and> snd (?six ! i) < length ?vs" if "i < 6" for i
  proof -
    have "?six ! i \<in> set ?six"
      using that len6 by simp
    then show ?thesis
      using six_positions len4 by fastforce
  qed
  have 1: "\<forall>i < k. pair_call wx ?six ?vs ?ns (?six ! i) = Inr (comparison_at wx ?six ?vs ?ns (?six ! i))"
  proof (intro allI impI)
    fix i assume i: "i < k"
    then have "i < 6" using k by simp
    then have r: "fst (?six ! i) < length ?vs" "snd (?six ! i) < length ?vs"
      using range by simp_all
    obtain s q where "wx (?vs ! fst (?six ! i)) (?vs ! snd (?six ! i)) = Inr (s, q)"
      using before i by blast
    then show "pair_call wx ?six ?vs ?ns (?six ! i) = Inr (comparison_at wx ?six ?vs ?ns (?six ! i))"
      using r by (intro pair_call_returns) (simp_all add: length_group_values six_pairs)
  qed
  have "pair_call wx ?six ?vs ?ns (?six ! k) =
          wilcox_bonf wx ?six (?vs ! fst (?six ! k)) (?vs ! snd (?six ! k))
            (?ns ! fst (?six ! k), ?ns ! snd (?six ! k))"
    using range [OF k] by (intro pair_call_in_range) (simp_all add: length_group_values)
  then have 2: "pair_call wx ?six ?vs ?ns (?six ! k) = Inl e"
    using at by (simp add: wilcox_bonf_raises)
  have "k < length ?six"
    using k len6 by simp
  then have "posthoc_lines wx ?six ?vs ?ns ?six =
          (map (\<lambda>idx. Pairwise (comparison_at wx ?six ?vs ?ns idx)) (take k ?six), Some e)"
    using 1 2 by (rule posthoc_lines_fails_at)
  then show ?thesis
    using fr by (simp add: metric_output_def)
qed

lemma precision_late_tie: "group_values Precision_m table_late_tie =
   [[Num 0.25, Num 0.75], [Num 1, Num 0.2], [Num 1, Num 0.2], [Num 0.5, Num 0]]"
  by (simp add: group_values_def groupby_algorithm_def table_late_tie_def obs_def)

lemma names_late_tie: "group_names table_late_tie = [''ALS'', ''IALS'', ''II'', ''UU'']"
  by (simp add: group_names_def groupby_algorithm_def table_late_tie_def obs_def)

section \<open>The claims\<close>

subsection \<open>C1: the post-hoc tests and the omnibus result\<close>

text \<open>
  Claim C1 as stated fails. With an omnibus p-value of 0.4 the evaluation prints the Friedman
  record and then six pairwise records: no cell branches on the omnibus p-value, and no
  record says that no significant difference was found.
\<close>

theorem posthoc_without_significant_omnibus:
  "\<not> float_lt (Num 0.4) 0.05 \<and>
   omnibus_records (printed (session table_four)
      (fst (evaluate_metric (friedman_returns (Num 9) (Num 0.4)) (wilcoxon_returns (Num 3) (Num 0.001))
              Precision_m (session table_four)))) = [(Num 9, Num 0.4)] \<and>
   length (pairwise_records (printed (session table_four)
      (fst (evaluate_metric (friedman_returns (Num 9) (Num 0.4)) (wilcoxon_returns (Num 3) (Num 0.001))
              Precision_m (session table_four))))) = 6"
  by (simp add: evaluate_metric_printed session_def metric_output_returns names_four six_pairs)

text \<open>
  Claim C1, amended. When the Friedman test returns, the lines of the evaluation are one
  omnibus record, holding its statistic and p-value, followed by pairwise records only,
  whatever the p-value and whatever the signed-rank test does. When the p-value is below 0.05
  and the signed-rank test returns on each pair, the evaluation completes and six pairwise
  records follow the omnibus record, holding in order what the signed-rank test returned on
  the six pairs of positions.
\<close>

theorem posthoc_after_significant_omnibus:
  assumes fr: "friedman_call friedmanchisquare (group_values m (results g)) = Inr (stat, p)"
  shows "printed g (fst (evaluate_metric friedmanchisquare wilcoxon m g)) =
           Omnibus stat p #
             map Pairwise (pairwise_records (printed g (fst (evaluate_metric friedmanchisquare wilcoxon m g)))) \<and>
         omnibus_records (printed g (fst (evaluate_metric friedmanchisquare wilcoxon m g))) = [(stat, p)] \<and>
         (float_lt p 0.05 \<and>
          (\<forall>idx \<in> set (combinations2 [0..<4]).
              \<exists>s q. wilcoxon (group_values m (results g) ! fst idx)
                              (group_values m (results g) ! snd idx) = Inr (s, q)) \<longrightarrow>
            snd (evaluate_metric friedmanchisquare wilcoxon m g) = None \<and>
            length (pairwise_records (printed g (fst (evaluate_metric friedmanchisquare wilcoxon m g)))) = 6 \<and>
            map (\<lambda>r. Inr (Statistics r, p_value r))
                (pairwise_records (printed g (fst (evaluate_metric friedmanchisquare wilcoxon m g)))) =
              map (\<lambda>idx. wilcoxon (group_values m (results g) ! fst idx)
                                   (group_values m (results g) ! snd idx))
                (combinations2 [0..<4]))"
proof -
  let ?vals = "group_values m (results g)"
  let ?six = "combinations2 [0..<4]"
  let ?out = "metric_output friedmanchisquare wilcoxon m (results g)"
  have order: "fst ?out = Omnibus stat p # map Pairwise (pairwise_records (fst ?out))"
    using fr by (rule metric_output_records(1))
  then have "omnibus_records (fst ?out) = (stat, p) # omnibus_records (map Pairwise (pairwise_records (fst ?out)))"
    by (metis omnibus_records.simps(2))
  then have one: "omnibus_records (fst ?out) = [(stat, p)]"
    by (simp add: omnibus_records_pairwise)
  have post: "snd ?out = None \<and> length (pairwise_records (fst ?out)) = 6 \<and>
              map (\<lambda>r. Inr (Statistics r, p_value r)) (pairwise_records (fst ?out)) =
                map (\<lambda>idx. wilcoxon (?vals ! fst idx) (?vals ! snd idx)) ?six"
    if wx: "\<forall>idx \<in> set ?six. \<exists>s q. wilcoxon (?vals ! fst idx) (?vals ! snd idx) = Inr (s, q)"
  proof -
    have out: "?out =
               (Omnibus stat p #
                  map (\<lambda>idx. Pairwise (comparison_at wilcoxon ?six ?vals (group_names (results g)) idx)) ?six,
                None)"
      using fr wx by (rule metric_output_complete)
    have "\<And>idx. idx \<in> set ?six \<Longrightarrow>
          Inr (Statistics (comparison_at wilcoxon ?six ?vals (group_names (results g)) idx),
               p_value (comparison_at wilcoxon ?six ?vals (group_names (results g)) idx)) =
          wilcoxon (?vals ! fst idx) (?vals ! snd idx)"
    proof -
      fix idx assume "idx \<in> set ?six"
      then obtain s q where "wilcoxon (?vals ! fst idx) (?vals ! snd idx) = Inr (s, q)"
        using wx by blast
      then show "Inr (Statistics (comparison_at wilcoxon ?six ?vals (group_names (results g)) idx),
               p_value (comparison_at wilcoxon ?six ?vals (group_names (results g)) idx)) =
          wilcoxon (?vals ! fst idx) (?vals ! snd idx)"
        by (simp add: comparison_at_def)
    qed
    then have "map (\<lambda>r. Inr (Statistics r, p_value r))
               (map (comparison_at wilcoxon ?six ?vals (group_names (results g))) ?six) =
             map (\<lambda>idx. wilcoxon (?vals ! fst idx) (?vals ! snd idx)) ?six"
      by (simp del: combinations2.simps)
    moreover have "length ?six = 6"
      by (simp add: six_pairs)
    ultimately show ?thesis
      by (simp add: out pairwise_records_map del: combinations2.simps)
  qed
  show ?thesis
    using order one post by (simp only: evaluate_metric_printed evaluate_metric_exn) blast
qed

text \<open>
  Claim C1, amended, at a table with four algorithms and an omnibus p-value of 0.01.
\<close>

theorem posthoc_after_significant_omnibus_witness:
  "friedman_call (friedman_returns (Num 9) (Num 0.01)) (group_values Precision_m (results (session table_four)))
     = Inr (Num 9, Num 0.01) \<and>
   float_lt (Num 0.01) 0.05 \<and>
   snd (evaluate_metric (friedman_returns (Num 9) (Num 0.01)) (wilcoxon_returns (Num 3) (Num 0.001))
          Precision_m (session table_four)) = None \<and>
   map (\<lambda>r. (Statistics r, p_value r))
     (pairwise_records (printed (session table_four)
        (fst (evaluate_metric (friedman_returns (Num 9) (Num 0.01)) (wilcoxon_returns (Num 3) (Num 0.001))
              Precision_m (session table_four))))) = replicate 6 (Num 3, Num 0.001)"
proof -
  have 1: "friedman_call (friedman_returns (Num 9) (Num 0.01))
             (group_values Precision_m (results (session table_four))) = Inr (Num 9, Num 0.01)"
    by (simp add: friedman_call_returns session_def precision_four)
  have 2: "\<forall>idx \<in> set (combinations2 [0..<4]).
             \<exists>s q. wilcoxon_returns (Num 3) (Num 0.001)
                     (group_values Precision_m (results (session table_four)) ! fst idx)
                     (group_values Precision_m (results (session table_four)) ! snd idx) = Inr (s, q)"
    by (simp add: wilcoxon_returns_def)
  have 3: "float_lt (Num 0.01) 0.05"
    by simp
  note inst = posthoc_after_significant_omnibus [OF 1, of "wilcoxon_returns (Num 3) (Num 0.001)"]
  have "map (\<lambda>r. Inr (Statistics r, p_value r))
          (pairwise_records (printed (session table_four)
            (fst (evaluate_metric (friedman_returns (Num 9) (Num 0.01)) (wilcoxon_returns (Num 3) (Num 0.001))
                  Precision_m (session table_four))))) =
        (replicate 6 (Inr (Num 3, Num 0.001)) :: (exn + pyfloat \<times> pyfloat) list)"
    using inst 2 3 by (simp add: wilcoxon_returns_def six_pairs numeral_eq_Suc)
  then have "map (\<lambda>r. (Statistics r, p_value r))
          (pairwise_records (printed (session table_four)
            (fst (evaluate_metric (friedman_returns (Num 9) (Num 0.01)) (wilcoxon_returns (Num 3) (Num 0.001))
                  Precision_m (session table_four))))) = replicate 6 (Num 3, Num 0.001)"
    by (simp add: map_eq_Cons_conv numeral_eq_Suc)
  then show ?thesis
    using 1 2 3 inst by simp
qed

subsection \<open>C2: a pair whose differences are all zero\<close>

text \<open>
  Claim C2 as stated fails. For two equal vectors \<^verbatim>\<open>wilcox_bonf\<close> has no outcome of its own:
  when the signed-rank test raises, the exception leaves the function; when it returns a NaN
  p-value the decision is "different"; when it returns the p-value 1 the decision is "same".
\<close>

theorem zero_differences_not_reported:
  "all_zero_differences [Num 0.25, Num 0.75] [Num 0.25, Num 0.75] \<and>
   wilcox_bonf (wilcoxon_zero_raises (Num 3) (Num 0.5)) (combinations2 [0..<4])
       [Num 0.25, Num 0.75] [Num 0.25, Num 0.75] (''ALS'', ''IALS'') = Inl ValueError \<and>
   wilcox_bonf (wilcoxon_zero_nan (Num 3) (Num 0.5)) (combinations2 [0..<4])
       [Num 0.25, Num 0.75] [Num 0.25, Num 0.75] (''ALS'', ''IALS'') =
     Inr \<lparr>Pair_names = (''ALS'', ''IALS''), Statistics = Num 0, p_value = NaN,
          Decision = ''Metric is different (reject H0)''\<rparr> \<and>
   wilcox_bonf (wilcoxon_returns (Num 0) (Num 1)) (combinations2 [0..<4])
       [Num 0.25, Num 0.75] [Num 0.25, Num 0.75] (''ALS'', ''IALS'') =
     Inr \<lparr>Pair_names = (''ALS'', ''IALS''), Statistics = Num 0, p_value = Num 1,
          Decision = ''Metric is the same (fail to reject H0)''\<rparr>"
  by (simp add: all_zero_differences_def wilcox_bonf_def wilcoxon_zero_raises_def
        wilcoxon_zero_nan_def wilcoxon_returns_def six_pairs alpha_def
        decision_same_def decision_different_def)

text \<open>
  Claim C2, amended. For a pair whose differences are all zero \<^verbatim>\<open>wilcox_bonf\<close> does what it
  does for any pair: it raises what the signed-rank test raises, or returns the statistic and
  p-value of the test with one of the two decisions, "same" when the p-value exceeds the
  threshold and "different" otherwise.
\<close>

theorem zero_differences_outcome:
  assumes "all_zero_differences data1 data2" and "n_cmp \<noteq> []"
  shows "(\<exists>e. wilcoxon data1 data2 = Inl e \<and>
              wilcox_bonf wilcoxon n_cmp data1 data2 alg_pair = Inl e) \<or>
         (\<exists>stat p. wilcoxon data1 data2 = Inr (stat, p) \<and>
              wilcox_bonf wilcoxon n_cmp data1 data2 alg_pair =
                Inr \<lparr>Pair_names = alg_pair, Statistics = stat, p_value = p,
                     Decision = (if float_gt p (0.05 / real (length n_cmp))
                                 then ''Metric is the same (fail to reject H0)''
                                 else ''Metric is different (reject H0)'')\<rparr>)"
proof (cases "wilcoxon data1 data2")
  case (Inl e)
  then show ?thesis by (simp add: wilcox_bonf_def)
next
  case (Inr sp)
  then show ?thesis
    using assms(2)
    by (cases sp) (simp add: wilcox_bonf_returns alpha_def decision_same_def decision_different_def)
qed

text \<open>
  Claim C2, amended, at two equal vectors and a test that returns a NaN p-value for them.
\<close>

theorem zero_differences_outcome_witness:
  "all_zero_differences [Num 0.25, Num 0.75] [Num 0.25, Num 0.75] \<and>
   combinations2 [0..<4::nat] \<noteq> [] \<and>
   wilcox_bonf (wilcoxon_zero_nan (Num 3) (Num 0.5)) (combinations2 [0..<4])
       [Num 0.25, Num 0.75] [Num 0.25, Num 0.75] (''ALS'', ''IALS'') =
     Inr \<lparr>Pair_names = (''ALS'', ''IALS''), Statistics = Num 0, p_value = NaN,
          Decision = ''Metric is different (reject H0)''\<rparr>"
proof -
  have 1: "all_zero_differences [Num 0.25, Num 0.75] [Num 0.25, Num 0.75]"
    by (simp add: all_zero_differences_def)
  have 2: "combinations2 [0..<4::nat] \<noteq> []"
    by (simp add: six_pairs)
  have 3: "wilcoxon_zero_nan (Num 3) (Num 0.5) [Num 0.25, Num 0.75] [Num 0.25, Num 0.75] = Inr (Num 0, NaN)"
    using 1 by (simp add: wilcoxon_zero_nan_def)
  show ?thesis
    using 1 2 3 zero_differences_outcome [OF 1 2, of "wilcoxon_zero_nan (Num 3) (Num 0.5)" "(''ALS'', ''IALS'')"]
    by (simp add: six_pairs)
qed

subsection \<open>C3: the pairs compared\<close>

text \<open>
  Claim C3 as stated fails. With five algorithms and a significant omnibus result the
  evaluation prints six pairwise records, not the ten pairs of five algorithms.
\<close>

theorem six_pairs_for_five_algorithms:
  "length (group_names table_five) = 5 \<and> float_lt (Num 0.01) 0.05 \<and>
   length (pairwise_records (printed (session table_five)
      (fst (evaluate_metric (friedman_returns (Num 9) (Num 0.01)) (wilcoxon_returns (Num 3) (Num 0.001))
              Precision_m (session table_five))))) = 6 \<and>
   (5::nat) choose 2 = 10"
  by (simp add: evaluate_metric_printed session_def metric_output_returns names_five six_pairs
        choose_two)

text \<open>
  Claim C3, amended. With exactly four algorithms and a significant omnibus result (and a
  signed-rank test that returns on each pair) the pairs of the pairwise records are the
  combinations of the sorted identifiers: C(4,2) of them, each unordered pair of distinct
  identifiers exactly once with the smaller identifier first, in lexicographic order.
\<close>

theorem pairs_of_four_algorithms:
  assumes four: "length (group_names (results g)) = 4"
      and fr: "friedman_call friedmanchisquare (group_values m (results g)) = Inr (stat, p)"
      and sig: "float_lt p 0.05"
      and wx: "\<forall>idx \<in> set (combinations2 [0..<4]).
                 \<exists>s q. wilcoxon (group_values m (results g) ! fst idx)
                                 (group_values m (results g) ! snd idx) = Inr (s, q)"
  shows "map Pair_names (pairwise_records (printed g (fst (evaluate_metric friedmanchisquare wilcoxon m g)))) =
           combinations2 (sort (remdups (map algorithm (results g)))) \<and>
         length (pairwise_records (printed g (fst (evaluate_metric friedmanchisquare wilcoxon m g)))) =
           4 choose 2 \<and>
         distinct (map Pair_names
           (pairwise_records (printed g (fst (evaluate_metric friedmanchisquare wilcoxon m g))))) \<and>
         set (map Pair_names
           (pairwise_records (printed g (fst (evaluate_metric friedmanchisquare wilcoxon m g))))) =
           {(a, b). a \<in> algorithm ` set (results g) \<and> b \<in> algorithm ` set (results g) \<and> a < b} \<and>
         sorted_wrt (\<lambda>(a, b) (c, d). a < c \<or> (a = c \<and> b < d))
           (map Pair_names
             (pairwise_records (printed g (fst (evaluate_metric friedmanchisquare wilcoxon m g)))))"
proof -
  let ?names = "group_names (results g)"
  let ?six = "combinations2 [0..<4]"
  let ?recs = "pairwise_records (printed g (fst (evaluate_metric friedmanchisquare wilcoxon m g)))"
  have out: "metric_output friedmanchisquare wilcoxon m (results g) =
               (Omnibus stat p #
                  map (\<lambda>idx. Pairwise (comparison_at wilcoxon ?six (group_values m (results g)) ?names idx)) ?six,
                None)"
    using fr wx by (rule metric_output_complete)
  have "?recs = map (comparison_at wilcoxon ?six (group_values m (results g)) ?names) ?six"
    by (simp add: evaluate_metric_printed out pairwise_records_map del: combinations2.simps)
  then have "map Pair_names ?recs = map (\<lambda>(i, j). (?names ! i, ?names ! j)) ?six"
    by (simp add: comparison_at_def comp_def case_prod_beta del: combinations2.simps)
  then have pairs: "map Pair_names ?recs = combinations2 ?names"
    using four by (simp add: combinations2_nth4 del: combinations2.simps)
  have names: "?names = sort (remdups (map algorithm (results g)))"
    by (rule group_names_sorted)
  have sd: "sorted ?names" "distinct ?names"
    by (simp_all add: names)
  have "length ?recs = length (combinations2 ?names)"
    using pairs by (metis length_map)
  then have len: "length ?recs = 4 choose 2"
    using four by (simp add: length_combinations2)
  have "set (combinations2 ?names) =
          {(a, b). a \<in> algorithm ` set (results g) \<and> b \<in> algorithm ` set (results g) \<and> a < b}"
    using sd by (simp add: set_combinations2) (simp add: names)
  then show ?thesis
    using pairs len sd names distinct_combinations2 [of ?names] sorted_combinations2 [of ?names]
    by simp
qed

text \<open>
  Claim C3, amended, at the algorithms ALS, IALS, II and UU, listed in the table in another
  order.
\<close>

theorem pairs_of_four_algorithms_witness:
  "length (group_names (results (session table_four))) = 4 \<and> float_lt (Num 0.01) 0.05 \<and>
   map Pair_names (pairwise_records (printed (session table_four)
      (fst (evaluate_metric (friedman_returns (Num 9) (Num 0.01)) (wilcoxon_returns (Num 3) (Num 0.001))
              Precision_m (session table_four))))) =
     [(''ALS'', ''IALS''), (''ALS'', ''II''), (''ALS'', ''UU''),
      (''IALS'', ''II''), (''IALS'', ''UU''), (''II'', ''UU'')]"
proof -
  have 0: "length (group_names (results (session table_four))) = 4"
    by (simp add: session_def names_four)
  have 1: "friedman_call (friedman_returns (Num 9) (Num 0.01))
             (group_values Precision_m (results (session table_four))) = Inr (Num 9, Num 0.01)"
    by (simp add: friedman_call_returns session_def precision_four)
  have 2: "float_lt (Num 0.01) 0.05"
    by simp
  have 3: "\<forall>idx \<in> set (combinations2 [0..<4]).
             \<exists>s q. wilcoxon_returns (Num 3) (Num 0.001)
                     (group_values Precision_m (results (session table_four)) ! fst idx)
                     (group_values Precision_m (results (session table_four)) ! snd idx) = Inr (s, q)"
    by (simp add: wilcoxon_returns_def)
  have "sort (remdups (map algorithm (results (session table_four)))) = [''ALS'', ''IALS'', ''II'', ''UU'']"
    using names_four by (simp add: group_names_sorted session_def)
  then show ?thesis
    using 0 2 pairs_of_four_algorithms [OF 0 1 2 3] by simp
qed

subsection \<open>C4: the decision rule\<close>

text \<open>
  Claim C4 as stated fails. When the signed-rank test returns a NaN p-value the test
  \<^verbatim>\<open>p > new_alpha\<close> is false and the decision is "different", although the p-value is not
  at most the threshold.
\<close>

theorem nan_p_value_decided_different:
  "wilcox_bonf (wilcoxon_returns (Num 0) NaN) (combinations2 [0..<4])
       [Num 0.25, Num 0.75] [Num 0.5, Num 0] (''ALS'', ''UU'') =
     Inr \<lparr>Pair_names = (''ALS'', ''UU''), Statistics = Num 0, p_value = NaN,
          Decision = ''Metric is different (reject H0)''\<rparr> \<and>
   \<not> float_le NaN (0.05 / 6)"
  by (simp add: wilcox_bonf_def wilcoxon_returns_def six_pairs alpha_def decision_different_def)

text \<open>
  Claim C4, amended. When the signed-rank test returns a p-value that is a number, the
  record holds that p-value and the decision is "different" exactly when the p-value is at
  most the adjusted threshold, and "same" otherwise.
\<close>

theorem decision_different_iff:
  assumes "wilcoxon data1 data2 = Inr (stat, Num p)" and "n_cmp \<noteq> []"
  shows "\<exists>r. wilcox_bonf wilcoxon n_cmp data1 data2 alg_pair = Inr r \<and>
             Pair_names r = alg_pair \<and> Statistics r = stat \<and> p_value r = Num p \<and>
             (Decision r = decision_different \<longleftrightarrow> p \<le> 0.05 / real (length n_cmp)) \<and>
             (Decision r = decision_same \<longleftrightarrow> \<not> p \<le> 0.05 / real (length n_cmp))"
  using assms by (auto simp: wilcox_bonf_returns alpha_def decision_same_def decision_different_def)

text \<open>
  Claim C4, amended, at the boundary: a p-value equal to the threshold 0.05 / 6 gives
  "different".
\<close>

theorem decision_different_iff_witness:
  "wilcoxon_returns (Num 3) (Num (0.05 / 6)) [Num 1, Num 0] [Num 0, Num 1] = Inr (Num 3, Num (0.05 / 6)) \<and>
   combinations2 [0..<4::nat] \<noteq> [] \<and>
   (\<exists>r. wilcox_bonf (wilcoxon_returns (Num 3) (Num (0.05 / 6))) (combinations2 [0..<4])
           [Num 1, Num 0] [Num 0, Num 1] (''ALS'', ''IALS'') = Inr r \<and>
        Decision r = decision_different)"
proof -
  have 1: "wilcoxon_returns (Num 3) (Num (0.05 / 6)) [Num 1, Num 0] [Num 0, Num 1] = Inr (Num 3, Num (0.05 / 6))"
    by (simp add: wilcoxon_returns_def)
  have 2: "combinations2 [0..<4::nat] \<noteq> []"
    by (simp add: six_pairs)
  show ?thesis
    using 1 2 decision_different_iff [of "wilcoxon_returns (Num 3) (Num (0.05 / 6))"
        "[Num 1, Num 0]" "[Num 0, Num 1]" "Num 3" "0.05 / 6" "combinations2 [0..<4]" "(''ALS'', ''IALS'')"]
    by (auto simp: six_pairs)
qed

subsection \<open>C5: the adjusted threshold\<close>

text \<open>
  Claim C5 as stated fails. The threshold is not computed once per evaluation: in an
  evaluation over four algorithms the line \<^verbatim>\<open>new_alpha = alpha/len(n_compare)\<close> is executed
  six times, once in each call of \<^verbatim>\<open>wilcox_bonf\<close>.
\<close>

theorem threshold_evaluated_for_each_pair:
  "threshold_evaluations (wilcoxon_returns (Num 3) (Num 0.001))
     (n_compare (fst (evaluate_metric (friedman_returns (Num 9) (Num 0.01)) (wilcoxon_returns (Num 3) (Num 0.001))
          Precision_m (session table_four))))
     (alg_vals (fst (evaluate_metric (friedman_returns (Num 9) (Num 0.01)) (wilcoxon_returns (Num 3) (Num 0.001))
          Precision_m (session table_four))))
     (alg_names (fst (evaluate_metric (friedman_returns (Num 9) (Num 0.01)) (wilcoxon_returns (Num 3) (Num 0.001))
          Precision_m (session table_four))))
     (n_compare (fst (evaluate_metric (friedman_returns (Num 9) (Num 0.01)) (wilcoxon_returns (Num 3) (Num 0.001))
          Precision_m (session table_four)))) = 6"
proof -
  let ?g' = "fst (evaluate_metric (friedman_returns (Num 9) (Num 0.01)) (wilcoxon_returns (Num 3) (Num 0.001))
          Precision_m (session table_four))"
  have "fst (metric_output (friedman_returns (Num 9) (Num 0.01)) (wilcoxon_returns (Num 3) (Num 0.001))
          Precision_m table_four) \<noteq> []"
    by (simp add: metric_output_returns names_four)
  then have fields: "n_compare ?g' = [(0, 1), (0, 2), (0, 3), (1, 2), (1, 3), (2, 3)]"
      "alg_vals ?g' = [[Num 0.25, Num 0.75], [Num 1, Num 0.2], [Num 0.1, Num 0.5], [Num 0.5, Num 0]]"
      "alg_names ?g' = [''ALS'', ''IALS'', ''II'', ''UU'']"
    by (simp_all add: evaluate_metric_closed session_def six_pairs precision_four names_four)
  show ?thesis
    unfolding fields
    by (simp add: pair_call_def item_def wilcox_bonf_def wilcoxon_returns_def wilcox_bonf_divisions_def)
qed

text \<open>
  Claim C5, amended. In an evaluation on which the Friedman test returns, \<^verbatim>\<open>n_compare\<close>
  holds the six pairs of positions and every pairwise record holds the statistic and p-value
  the signed-rank test returned for its pair, decided against the same threshold, 0.05
  divided by the length of \<^verbatim>\<open>n_compare\<close>, which is 0.05 / 6. At most six pairs are compared,
  six when the evaluation completes. The threshold is computed once for every pair
  compared, inside \<^verbatim>\<open>wilcox_bonf\<close>.
\<close>

theorem bonferroni_threshold:
  assumes fr: "friedman_call fr (group_values m (results g)) = Inr (stat, p)"
      and ev: "evaluate_metric fr wx m g = (g', e)"
  shows "n_compare g' = [(0, 1), (0, 2), (0, 3), (1, 2), (1, 3), (2, 3)] \<and>
         alpha / real (length (n_compare g')) = 0.05 / 6 \<and>
         length (pairwise_records (printed g g')) \<le> 6 \<and>
         (e = None \<longrightarrow> length (pairwise_records (printed g g')) = 6) \<and>
         (\<forall>i < length (pairwise_records (printed g g')).
            wx (alg_vals g' ! fst (n_compare g' ! i)) (alg_vals g' ! snd (n_compare g' ! i)) =
              Inr (Statistics (pairwise_records (printed g g') ! i),
                   p_value (pairwise_records (printed g g') ! i)) \<and>
            Decision (pairwise_records (printed g g') ! i) =
              (if float_gt (p_value (pairwise_records (printed g g') ! i))
                    (alpha / real (length (n_compare g')))
               then decision_same else decision_different)) \<and>
         threshold_evaluations wx (n_compare g') (alg_vals g') (alg_names g') (n_compare g') =
           length (pairwise_records (printed g g'))"
proof -
  let ?six = "combinations2 [0..<4]"
  let ?out = "metric_output fr wx m (results g)"
  have nonempty: "fst ?out \<noteq> []"
    using metric_output_records(1) [OF fr, of wx] by auto
  have g': "g' = fst (evaluate_metric fr wx m g)" and e: "e = snd (evaluate_metric fr wx m g)"
    using ev by simp_all
  have pr: "printed g g' = fst ?out"
    by (simp add: g' evaluate_metric_printed)
  have e': "e = snd ?out"
    by (simp add: e evaluate_metric_exn)
  have nc: "n_compare g' = ?six" and vals: "alg_vals g' = group_values m (results g)"
    and names: "alg_names g' = group_names (results g)"
    using nonempty by (simp_all add: g' evaluate_metric_closed)
  have six: "?six = [(0, 1), (0, 2), (0, 3), (1, 2), (1, 3), (2, 3)]"
    by (rule six_pairs)
  have thr: "alpha / real (length ?six) = 0.05 / 6"
    by (simp add: six_pairs alpha_def)
  have out: "?out = (Omnibus stat p #
                fst (posthoc_lines wx ?six (group_values m (results g)) (group_names (results g)) ?six),
              snd (posthoc_lines wx ?six (group_values m (results g)) (group_names (results g)) ?six))"
    using fr by (simp add: metric_output_def)
  have "?six \<noteq> []"
    by (simp add: six_pairs)
  then have "threshold_evaluations wx ?six (group_values m (results g)) (group_names (results g)) ?six =
          length (pairwise_records
            (fst (posthoc_lines wx ?six (group_values m (results g)) (group_names (results g)) ?six)))"
    by (rule threshold_evaluations_records)
  then have "threshold_evaluations wx ?six (group_values m (results g)) (group_names (results g)) ?six =
          length (pairwise_records (fst ?out))"
    by (simp only: out fst_conv pairwise_records.simps)
  then have count: "threshold_evaluations wx (n_compare g') (alg_vals g') (alg_names g') (n_compare g') =
          length (pairwise_records (printed g g'))"
    by (simp only: nc vals names pr)
  have each: "wx (alg_vals g' ! fst (n_compare g' ! i)) (alg_vals g' ! snd (n_compare g' ! i)) =
              Inr (Statistics (pairwise_records (printed g g') ! i),
                   p_value (pairwise_records (printed g g') ! i)) \<and>
            Decision (pairwise_records (printed g g') ! i) =
              (if float_gt (p_value (pairwise_records (printed g g') ! i))
                    (alpha / real (length (n_compare g')))
               then decision_same else decision_different)"
    if "i < length (pairwise_records (printed g g'))" for i
    using metric_output_records(4) [OF fr, of i wx] that
    by (simp only: nc vals names pr thr)
  have "length (pairwise_records (printed g g')) \<le> 6"
    using metric_output_records(2) [OF fr, of wx] by (simp only: pr)
  moreover have "e = None \<longrightarrow> length (pairwise_records (printed g g')) = 6"
    using metric_output_records(3) [OF fr, of wx] by (simp only: pr e') simp
  moreover have "n_compare g' = [(0, 1), (0, 2), (0, 3), (1, 2), (1, 3), (2, 3)]"
    using nc six by simp
  moreover have "alpha / real (length (n_compare g')) = 0.05 / 6"
    using thr by (simp only: nc)
  ultimately show ?thesis
    using each count by blast
qed

text \<open>
  Claim C5, amended, at a table with four algorithms: six pairs, threshold 1 / 120.
\<close>

theorem bonferroni_threshold_witness:
  "friedman_call (friedman_returns (Num 9) (Num 0.01))
     (group_values Precision_m (results (session table_four))) = Inr (Num 9, Num 0.01) \<and>
   snd (evaluate_metric (friedman_returns (Num 9) (Num 0.01)) (wilcoxon_returns (Num 3) (Num 0.001))
          Precision_m (session table_four)) = None \<and>
   length (pairwise_records (printed (session table_four)
     (fst (evaluate_metric (friedman_returns (Num 9) (Num 0.01)) (wilcoxon_returns (Num 3) (Num 0.001))
          Precision_m (session table_four))))) = 6 \<and>
   alpha / real (length (n_compare
     (fst (evaluate_metric (friedman_returns (Num 9) (Num 0.01)) (wilcoxon_returns (Num 3) (Num 0.001))
          Precision_m (session table_four))))) = 1 / 120"
proof -
  have 0: "friedman_call (friedman_returns (Num 9) (Num 0.01))
             (group_values Precision_m (results (session table_four))) = Inr (Num 9, Num 0.01)"
    by (simp add: friedman_call_returns session_def precision_four)
  have 1: "snd (evaluate_metric (friedman_returns (Num 9) (Num 0.01)) (wilcoxon_returns (Num 3) (Num 0.001))
          Precision_m (session table_four)) = None"
    by (simp add: evaluate_metric_exn metric_output_returns session_def names_four)
  have h: "evaluate_metric (friedman_returns (Num 9) (Num 0.01)) (wilcoxon_returns (Num 3) (Num 0.001))
             Precision_m (session table_four) =
           (fst (evaluate_metric (friedman_returns (Num 9) (Num 0.01)) (wilcoxon_returns (Num 3) (Num 0.001))
                  Precision_m (session table_four)),
            snd (evaluate_metric (friedman_returns (Num 9) (Num 0.01)) (wilcoxon_returns (Num 3) (Num 0.001))
                  Precision_m (session table_four)))"
    by simp
  note inst = bonferroni_threshold [OF 0 h]
  from inst have a: "alpha / real (length (n_compare
     (fst (evaluate_metric (friedman_returns (Num 9) (Num 0.01)) (wilcoxon_returns (Num 3) (Num 0.001))
          Precision_m (session table_four))))) = 0.05 / 6"
    by blast
  from inst 1 have b: "length (pairwise_records (printed (session table_four)
     (fst (evaluate_metric (friedman_returns (Num 9) (Num 0.01)) (wilcoxon_returns (Num 3) (Num 0.001))
          Precision_m (session table_four))))) = 6"
    by blast
  have c: "(0.05::real) / 6 = 1 / 120"
    by simp
  from a c have a': "alpha / real (length (n_compare
     (fst (evaluate_metric (friedman_returns (Num 9) (Num 0.01)) (wilcoxon_returns (Num 3) (Num 0.001))
          Precision_m (session table_four))))) = 1 / 120"
    by (rule trans)
  from 0 1 b a' show ?thesis
    by blast
qed

subsection \<open>C6: fewer than three groups\<close>

text \<open>
  Claim C6 as stated fails: with a single algorithm the Friedman cell ends in an uncaught
  \<^verbatim>\<open>IndexError\<close> and prints nothing, so there is no "not applicable" result.
\<close>

theorem single_algorithm_index_error:
  "snd (evaluate_metric (friedman_returns (Num 9) (Num 0.01)) (wilcoxon_returns (Num 3) (Num 0.001))
          Precision_m (session table_one)) = Some IndexError \<and>
   stdout (fst (evaluate_metric (friedman_returns (Num 9) (Num 0.01)) (wilcoxon_returns (Num 3) (Num 0.001))
          Precision_m (session table_one))) = []"
  by (simp add: evaluate_metric_exn evaluate_metric_stdout metric_output_short session_def names_one)

text \<open>
  Claim C6, amended. With fewer than three groups neither test is called (the outcome is
  the same for any two tests), nothing is printed, and the evaluation ends in
  \<^verbatim>\<open>IndexError\<close>.
\<close>

theorem fewer_than_three_groups:
  assumes "length (group_names (results g)) < 3"
  shows "snd (evaluate_metric fr wx m g) = Some IndexError \<and>
         printed g (fst (evaluate_metric fr wx m g)) = [] \<and>
         evaluate_metric fr' wx' m g = evaluate_metric fr wx m g"
proof -
  have "length (group_names (results g)) < 4"
    using assms by simp
  then have "\<And>f w. metric_output f w m (results g) = ([], Some IndexError)"
    by (rule metric_output_short)
  then show ?thesis
    by (simp add: evaluate_metric_closed printed_def)
qed

text \<open>
  Claim C6, amended, at a table with one group.
\<close>

theorem fewer_than_three_groups_witness:
  "length (group_names (results (session table_one))) < 3 \<and>
   snd (evaluate_metric (friedman_returns (Num 9) (Num 0.01)) (wilcoxon_returns (Num 3) (Num 0.001))
          Ndcg_m (session table_one)) = Some IndexError"
  using fewer_than_three_groups [of "session table_one" "friedman_returns (Num 9) (Num 0.01)"
          "wilcoxon_returns (Num 3) (Num 0.001)" Ndcg_m]
  by (simp add: session_def names_one)

subsection \<open>C7: errors and the other metrics\<close>

text \<open>
  Claim C7 as stated fails. On a table where two algorithms have the same precision for
  every user, and a signed-rank test that raises for such a pair, the run ends in
  \<^verbatim>\<open>ValueError\<close> after the Friedman record of the precision; ndcg and recip_rank are never
  evaluated, although ndcg evaluated alone completes.
\<close>

theorem exception_aborts_other_metrics:
  "snd (run_notebook (friedman_returns (Num 9) (Num 0.01)) (wilcoxon_zero_raises (Num 3) (Num 0.001))
          table_tied) = Some ValueError \<and>
   stdout (fst (run_notebook (friedman_returns (Num 9) (Num 0.01)) (wilcoxon_zero_raises (Num 3) (Num 0.001))
          table_tied)) = [Omnibus (Num 9) (Num 0.01)] \<and>
   snd (evaluate_metric (friedman_returns (Num 9) (Num 0.01)) (wilcoxon_zero_raises (Num 3) (Num 0.001))
          Ndcg_m (session (fillna0 table_tied))) = None"
proof -
  let ?F = "friedman_returns (Num 9) (Num 0.01)"
  let ?W = "wilcoxon_zero_raises (Num 3) (Num 0.001)"
  have p: "metric_output ?F ?W Precision_m table_tied = ([Omnibus (Num 9) (Num 0.01)], Some ValueError)"
    by (simp add: metric_output_def friedman_call_returns precision_tied names_tied six_pairs
          pair_call_def item_def wilcox_bonf_def wilcoxon_zero_raises_def all_zero_differences_def)
  have n: "snd (metric_output ?F ?W Ndcg_m table_tied) = None"
    by (simp add: metric_output_def friedman_call_returns ndcg_tied names_tied six_pairs
          pair_call_def item_def wilcox_bonf_def wilcoxon_zero_raises_def all_zero_differences_def)
  have "evaluate_metric ?F ?W Precision_m (session table_tied) =
          ((session table_tied)\<lparr>alg_vals := group_values Precision_m table_tied,
                                 alg_names := group_names table_tied,
                                 n_compare := combinations2 [0..<4],
                                 stdout := [Omnibus (Num 9) (Num 0.01)]\<rparr>, Some ValueError)"
    using p by (simp add: evaluate_metric_closed session_def)
  then show ?thesis
    using n by (simp add: run_notebook_def fillna0_tied evaluate_metric_exn session_def)
qed

text \<open>
  Claim C7, amended. Nothing catches an exception. When the Friedman call raises
  (\<^verbatim>\<open>IndexError\<close> below four groups, otherwise what the test raises on the first four
  vectors), the evaluation of the metric ends in that exception with nothing printed. When
  the signed-rank test raises on a pair, the evaluation ends in that exception after the
  omnibus record and the records of the pairs before it: nothing is printed for the failing
  pair. In both cases the run of the metrics ends there, and the metrics after it are not
  evaluated. An empty table ends the run at once, in \<^verbatim>\<open>IndexError\<close>, with nothing printed.
\<close>

theorem exception_escapes_evaluation:
  "(friedman_call fr (group_values m (results g)) = Inl e \<longrightarrow>
      snd (evaluate_metric fr wx m g) = Some e \<and>
      printed g (fst (evaluate_metric fr wx m g)) = [] \<and>
      evaluate_metrics fr wx (m # ms) g = evaluate_metric fr wx m g) \<and>
   (friedman_call fr (group_values m (results g)) = Inr (stat, p) \<and> k < 6 \<and>
    (\<forall>i < k. \<exists>s q. wx (group_values m (results g) ! fst (([(0, 1), (0, 2), (0, 3), (1, 2), (1, 3), (2, 3)] :: (nat \<times> nat) list) ! i))
                      (group_values m (results g) ! snd (([(0, 1), (0, 2), (0, 3), (1, 2), (1, 3), (2, 3)] :: (nat \<times> nat) list) ! i))
                   = Inr (s, q)) \<and>
    wx (group_values m (results g) ! fst (([(0, 1), (0, 2), (0, 3), (1, 2), (1, 3), (2, 3)] :: (nat \<times> nat) list) ! k))
       (group_values m (results g) ! snd (([(0, 1), (0, 2), (0, 3), (1, 2), (1, 3), (2, 3)] :: (nat \<times> nat) list) ! k)) = Inl e \<longrightarrow>
      snd (evaluate_metric fr wx m g) = Some e \<and>
      printed g (fst (evaluate_metric fr wx m g)) =
        Omnibus stat p # map Pairwise (pairwise_records (printed g (fst (evaluate_metric fr wx m g)))) \<and>
      length (pairwise_records (printed g (fst (evaluate_metric fr wx m g)))) = k \<and>
      evaluate_metrics fr wx (m # ms) g = evaluate_metric fr wx m g) \<and>
   (length (group_names (results g)) < 4 \<longrightarrow>
      friedman_call fr (group_values m (results g)) = Inl IndexError) \<and>
   (4 \<le> length (group_names (results g)) \<longrightarrow>
      friedman_call fr (group_values m (results g)) =
        fr (group_values m (results g) ! 0) (group_values m (results g) ! 1)
           (group_values m (results g) ! 2) (group_values m (results g) ! 3)) \<and>
   snd (run_notebook fr wx []) = Some IndexError \<and>
   stdout (fst (run_notebook fr wx [])) = []"
proof -
  let ?vs = "group_values m (results g)"
  let ?ev = "evaluate_metric fr wx m g"
  have A: "snd ?ev = Some e \<and> printed g (fst ?ev) = [] \<and> evaluate_metrics fr wx (m # ms) g = ?ev"
    if "friedman_call fr ?vs = Inl e"
  proof -
    have "metric_output fr wx m (results g) = ([], Some e)"
      using that by (rule metric_output_raises)
    then have "snd ?ev = Some e" "printed g (fst ?ev) = []"
      by (simp_all add: evaluate_metric_exn evaluate_metric_printed)
    then show ?thesis
      by (simp add: evaluate_metrics_first_fails del: evaluate_metrics.simps)
  qed
  have B: "snd ?ev = Some e \<and>
           printed g (fst ?ev) = Omnibus stat p # map Pairwise (pairwise_records (printed g (fst ?ev))) \<and>
           length (pairwise_records (printed g (fst ?ev))) = k \<and>
           evaluate_metrics fr wx (m # ms) g = ?ev"
    if fr: "friedman_call fr ?vs = Inr (stat, p)" and k: "k < 6"
      and before: "\<forall>i < k. \<exists>s q. wx (?vs ! fst (([(0, 1), (0, 2), (0, 3), (1, 2), (1, 3), (2, 3)] :: (nat \<times> nat) list) ! i))
                      (?vs ! snd (([(0, 1), (0, 2), (0, 3), (1, 2), (1, 3), (2, 3)] :: (nat \<times> nat) list) ! i)) = Inr (s, q)"
      and at: "wx (?vs ! fst (([(0, 1), (0, 2), (0, 3), (1, 2), (1, 3), (2, 3)] :: (nat \<times> nat) list) ! k))
                  (?vs ! snd (([(0, 1), (0, 2), (0, 3), (1, 2), (1, 3), (2, 3)] :: (nat \<times> nat) list) ! k)) = Inl e"
  proof -
    have out: "metric_output fr wx m (results g) =
           (Omnibus stat p #
              map (\<lambda>idx. Pairwise (comparison_at wx (combinations2 [0..<4]) ?vs
                                     (group_names (results g)) idx))
                (take k (combinations2 [0..<4])),
            Some e)"
      using fr k before at by (intro metric_output_fails_at) (simp_all only: six_pairs)
    have "length (take k (combinations2 [0..<4])) = k"
      using k by (simp add: six_pairs)
    then have "snd ?ev = Some e"
        "printed g (fst ?ev) = Omnibus stat p # map Pairwise (pairwise_records (printed g (fst ?ev)))"
        "length (pairwise_records (printed g (fst ?ev))) = k"
      by (simp_all add: evaluate_metric_exn evaluate_metric_printed out pairwise_records_map
            del: combinations2.simps)
    then show ?thesis
      by (simp add: evaluate_metrics_first_fails del: evaluate_metrics.simps)
  qed
  have C: "friedman_call fr ?vs = Inl IndexError" if "length (group_names (results g)) < 4"
    using that by (simp add: friedman_call_short length_group_values)
  have D: "friedman_call fr ?vs = fr (?vs ! 0) (?vs ! 1) (?vs ! 2) (?vs ! 3)"
    if "4 \<le> length (group_names (results g))"
    using that by (simp add: friedman_call_long length_group_values)
  have "snd (evaluate_metric fr wx Precision_m (session (fillna0 []))) = Some IndexError"
       "stdout (fst (evaluate_metric fr wx Precision_m (session (fillna0 [])))) = []"
    by (simp_all add: evaluate_metric_exn evaluate_metric_stdout metric_output_short session_def
          fillna0_def group_names_sorted)
  moreover from this have "run_notebook fr wx [] = evaluate_metric fr wx Precision_m (session (fillna0 []))"
    unfolding run_notebook_def by (intro evaluate_metrics_first_fails)
  ultimately have E: "snd (run_notebook fr wx []) = Some IndexError \<and> stdout (fst (run_notebook fr wx [])) = []"
    by simp
  show ?thesis
    using A B C D E by blast
qed

text \<open>
  Claim C7, amended, at a table whose fourth pair is tied and a signed-rank test that raises
  for tied pairs: three pairwise records, then \<^verbatim>\<open>ValueError\<close>, and the run of the three
  metrics is the failed evaluation of the first.
\<close>

theorem exception_escapes_evaluation_witness:
  "friedman_call (friedman_returns (Num 9) (Num 0.01))
     (group_values Precision_m (results (session table_late_tie))) = Inr (Num 9, Num 0.01) \<and>
   wilcoxon_zero_raises (Num 3) (Num 0.001) [Num 1, Num 0.2] [Num 1, Num 0.2] = Inl ValueError \<and>
   snd (evaluate_metric (friedman_returns (Num 9) (Num 0.01)) (wilcoxon_zero_raises (Num 3) (Num 0.001))
          Precision_m (session table_late_tie)) = Some ValueError \<and>
   length (pairwise_records (printed (session table_late_tie)
     (fst (evaluate_metric (friedman_returns (Num 9) (Num 0.01)) (wilcoxon_zero_raises (Num 3) (Num 0.001))
          Precision_m (session table_late_tie))))) = 3 \<and>
   evaluate_metrics (friedman_returns (Num 9) (Num 0.01)) (wilcoxon_zero_raises (Num 3) (Num 0.001))
     [Precision_m, Ndcg_m, Recip_rank_m] (session table_late_tie) =
   evaluate_metric (friedman_returns (Num 9) (Num 0.01)) (wilcoxon_zero_raises (Num 3) (Num 0.001))
     Precision_m (session table_late_tie)"
proof -
  let ?vs = "group_values Precision_m (results (session table_late_tie))"
  have vs: "?vs = [[Num 0.25, Num 0.75], [Num 1, Num 0.2], [Num 1, Num 0.2], [Num 0.5, Num 0]]"
    by (simp add: session_def precision_late_tie)
  have 1: "friedman_call (friedman_returns (Num 9) (Num 0.01)) ?vs = Inr (Num 9, Num 0.01)"
    by (simp add: vs friedman_call_returns)
  have 2: "(3::nat) < 6"
    by simp
  have 3: "\<forall>i < 3. \<exists>s q. wilcoxon_zero_raises (Num 3) (Num 0.001)
                (?vs ! fst (([(0, 1), (0, 2), (0, 3), (1, 2), (1, 3), (2, 3)] :: (nat \<times> nat) list) ! i))
                (?vs ! snd (([(0, 1), (0, 2), (0, 3), (1, 2), (1, 3), (2, 3)] :: (nat \<times> nat) list) ! i)) = Inr (s, q)"
    unfolding vs
    by (simp add: numeral_3_eq_3 less_Suc_eq wilcoxon_zero_raises_def all_zero_differences_def)
  have 4: "wilcoxon_zero_raises (Num 3) (Num 0.001)
                (?vs ! fst (([(0, 1), (0, 2), (0, 3), (1, 2), (1, 3), (2, 3)] :: (nat \<times> nat) list) ! 3))
                (?vs ! snd (([(0, 1), (0, 2), (0, 3), (1, 2), (1, 3), (2, 3)] :: (nat \<times> nat) list) ! 3)) = Inl ValueError"
    unfolding vs
    by (simp add: wilcoxon_zero_raises_def all_zero_differences_def)
  have 5: "wilcoxon_zero_raises (Num 3) (Num 0.001) [Num 1, Num 0.2] [Num 1, Num 0.2] = Inl ValueError"
    by (simp add: wilcoxon_zero_raises_def all_zero_differences_def)
  show ?thesis
    using 1 2 3 4 5
      exception_escapes_evaluation [of "friedman_returns (Num 9) (Num 0.01)" Precision_m
        "session table_late_tie" ValueError "wilcoxon_zero_raises (Num 3) (Num 0.001)"
        "[Ndcg_m, Recip_rank_m]" "Num 9" "Num 0.01" 3]
    by blast
qed

subsection \<open>C8: the first four groups\<close>

text \<open>
  Claim C8. With fewer than four groups the Friedman cell raises \<^verbatim>\<open>IndexError\<close> and
  nothing is printed. Otherwise the Friedman test is called on the vectors at positions 0, 1,
  2 and 3 of the sorted grouping, and an exception it raises ends the evaluation. When it
  returns, the omnibus record is followed by pairwise records that hold, in order, what the
  signed-rank test returned on the vectors at positions (0,1), (0,2), (0,3), (1,2), (1,3),
  (2,3), with the identifiers at those positions: six records when the evaluation completes.
  The lines and the exception are those of the table restricted to its first four groups in
  sorted order of the identifier: what the other groups hold changes nothing.
\<close>

theorem only_first_four_groups_used:
  "(length (group_names (results g)) < 4 \<longrightarrow>
      snd (evaluate_metric fr wx m g) = Some IndexError \<and>
      printed g (fst (evaluate_metric fr wx m g)) = []) \<and>
   (4 \<le> length (group_names (results g)) \<longrightarrow>
      friedman_call fr (group_values m (results g)) =
        fr (group_values m (results g) ! 0) (group_values m (results g) ! 1)
           (group_values m (results g) ! 2) (group_values m (results g) ! 3)) \<and>
   (friedman_call fr (group_values m (results g)) = Inl e \<longrightarrow>
      snd (evaluate_metric fr wx m g) = Some e \<and> printed g (fst (evaluate_metric fr wx m g)) = []) \<and>
   (friedman_call fr (group_values m (results g)) = Inr (stat, p) \<longrightarrow>
      printed g (fst (evaluate_metric fr wx m g)) =
        Omnibus stat p # map Pairwise (pairwise_records (printed g (fst (evaluate_metric fr wx m g)))) \<and>
      (\<forall>i < length (pairwise_records (printed g (fst (evaluate_metric fr wx m g)))).
         wx (group_values m (results g) ! fst (([(0, 1), (0, 2), (0, 3), (1, 2), (1, 3), (2, 3)] :: (nat \<times> nat) list) ! i))
            (group_values m (results g) ! snd (([(0, 1), (0, 2), (0, 3), (1, 2), (1, 3), (2, 3)] :: (nat \<times> nat) list) ! i)) =
           Inr (Statistics (pairwise_records (printed g (fst (evaluate_metric fr wx m g))) ! i),
                p_value (pairwise_records (printed g (fst (evaluate_metric fr wx m g))) ! i)) \<and>
         Pair_names (pairwise_records (printed g (fst (evaluate_metric fr wx m g))) ! i) =
           (group_names (results g) ! fst (([(0, 1), (0, 2), (0, 3), (1, 2), (1, 3), (2, 3)] :: (nat \<times> nat) list) ! i),
            group_names (results g) ! snd (([(0, 1), (0, 2), (0, 3), (1, 2), (1, 3), (2, 3)] :: (nat \<times> nat) list) ! i))) \<and>
      (snd (evaluate_metric fr wx m g) = None \<longrightarrow>
         length (pairwise_records (printed g (fst (evaluate_metric fr wx m g)))) = 6)) \<and>
   group_names (first_four (results g)) = take 4 (group_names (results g)) \<and>
   snd (evaluate_metric fr wx m (g\<lparr>results := first_four (results g)\<rparr>)) =
     snd (evaluate_metric fr wx m g) \<and>
   printed (g\<lparr>results := first_four (results g)\<rparr>)
       (fst (evaluate_metric fr wx m (g\<lparr>results := first_four (results g)\<rparr>))) =
     printed g (fst (evaluate_metric fr wx m g))"
proof -
  let ?vs = "group_values m (results g)"
  let ?out = "metric_output fr wx m (results g)"
  have A: "snd ?out = Some IndexError \<and> fst ?out = []" if "length (group_names (results g)) < 4"
    using that by (simp add: metric_output_short)
  have B: "friedman_call fr ?vs = fr (?vs ! 0) (?vs ! 1) (?vs ! 2) (?vs ! 3)"
    if "4 \<le> length (group_names (results g))"
    using that by (simp add: friedman_call_long length_group_values)
  have C: "snd ?out = Some e \<and> fst ?out = []" if "friedman_call fr ?vs = Inl e"
    using that by (simp add: metric_output_raises)
  have D: "fst ?out = Omnibus stat p # map Pairwise (pairwise_records (fst ?out)) \<and>
      (\<forall>i < length (pairwise_records (fst ?out)).
         wx (?vs ! fst (([(0, 1), (0, 2), (0, 3), (1, 2), (1, 3), (2, 3)] :: (nat \<times> nat) list) ! i))
            (?vs ! snd (([(0, 1), (0, 2), (0, 3), (1, 2), (1, 3), (2, 3)] :: (nat \<times> nat) list) ! i)) =
           Inr (Statistics (pairwise_records (fst ?out) ! i), p_value (pairwise_records (fst ?out) ! i)) \<and>
         Pair_names (pairwise_records (fst ?out) ! i) =
           (group_names (results g) ! fst (([(0, 1), (0, 2), (0, 3), (1, 2), (1, 3), (2, 3)] :: (nat \<times> nat) list) ! i),
            group_names (results g) ! snd (([(0, 1), (0, 2), (0, 3), (1, 2), (1, 3), (2, 3)] :: (nat \<times> nat) list) ! i))) \<and>
      (snd ?out = None \<longrightarrow> length (pairwise_records (fst ?out)) = 6)"
    if fr: "friedman_call fr ?vs = Inr (stat, p)"
    using metric_output_records(1) [OF fr, of wx] metric_output_records(3) [OF fr, of wx]
      metric_output_records(4) [OF fr, of _ wx]
    by (simp only: six_pairs) blast
  have E: "group_names (first_four (results g)) = take 4 (group_names (results g))"
    by (rule group_names_first_four)
  have F: "metric_output fr wx m (first_four (results g)) = ?out"
    by (rule metric_output_first_four)
  show ?thesis
    using A B C D E
    by (simp only: evaluate_metric_exn evaluate_metric_printed) (simp add: F)
qed

text \<open>
  Claim C8 at a table with one group and at a table with five, of which the four groups
  kept are shown.
\<close>

theorem only_first_four_groups_used_witness:
  "length (group_names (results (session table_one))) < 4 \<and>
   snd (evaluate_metric (friedman_returns (Num 9) (Num 0.01)) (wilcoxon_returns (Num 3) (Num 0.001))
          Precision_m (session table_one)) = Some IndexError \<and>
   4 \<le> length (group_names (results (session table_five))) \<and>
   friedman_call (friedman_returns (Num 9) (Num 0.01))
     (group_values Precision_m (results (session table_five))) = Inr (Num 9, Num 0.01) \<and>
   snd (evaluate_metric (friedman_returns (Num 9) (Num 0.01)) (wilcoxon_returns (Num 3) (Num 0.001))
          Precision_m (session table_five)) = None \<and>
   length (pairwise_records (printed (session table_five)
     (fst (evaluate_metric (friedman_returns (Num 9) (Num 0.01)) (wilcoxon_returns (Num 3) (Num 0.001))
          Precision_m (session table_five))))) = 6 \<and>
   group_names (first_four (results (session table_five))) = [''ALS'', ''IALS'', ''II'', ''Pop'']"
proof -
  have 1: "length (group_names (results (session table_one))) < 4"
    by (simp add: session_def names_one)
  have 2: "4 \<le> length (group_names (results (session table_five)))"
    by (simp add: session_def names_five)
  have 3: "friedman_call (friedman_returns (Num 9) (Num 0.01))
             (group_values Precision_m (results (session table_five))) = Inr (Num 9, Num 0.01)"
    using 2 by (simp add: friedman_call_returns length_group_values)
  have 4: "snd (evaluate_metric (friedman_returns (Num 9) (Num 0.01)) (wilcoxon_returns (Num 3) (Num 0.001))
          Precision_m (session table_five)) = None"
    by (simp add: evaluate_metric_exn metric_output_returns session_def names_five)
  show ?thesis
    using 1 2 3 4
      only_first_four_groups_used [where g = "session table_one"
        and fr = "friedman_returns (Num 9) (Num 0.01)" and wx = "wilcoxon_returns (Num 3) (Num 0.001)"
        and m = Precision_m and e = IndexError and stat = "Num 9" and p = "Num 0.01"]
      only_first_four_groups_used [where g = "session table_five"
        and fr = "friedman_returns (Num 9) (Num 0.01)" and wx = "wilcoxon_returns (Num 3) (Num 0.001)"
        and m = Precision_m and e = IndexError and stat = "Num 9" and p = "Num 0.01"]
    by (simp add: session_def names_five)
qed

subsection \<open>C9: missing values\<close>



subsection \<open>C10: determinism\<close>

text \<open>
  Claim C10. The lines a metric's evaluation prints and the exception it ends in depend on
  the table alone, not on what the globals held before; evaluating the same metric a second
  time, in the state the first evaluation left, prints the same lines in the same order and
  ends the same way.
\<close>

theorem evaluation_deterministic:
  "(results g' = results g \<longrightarrow>
      snd (evaluate_metric fr wx m g') = snd (evaluate_metric fr wx m g) \<and>
      printed g' (fst (evaluate_metric fr wx m g')) = printed g (fst (evaluate_metric fr wx m g))) \<and>
   snd (evaluate_metric fr wx m (fst (evaluate_metric fr wx m g))) = snd (evaluate_metric fr wx m g) \<and>
   printed (fst (evaluate_metric fr wx m g)) (fst (evaluate_metric fr wx m (fst (evaluate_metric fr wx m g)))) =
     printed g (fst (evaluate_metric fr wx m g))"
  by (simp add: evaluate_metric_exn evaluate_metric_printed evaluate_metric_results)

text \<open>
  Claim C10 at two states that hold the same table and differ in every other global.
\<close>

theorem evaluation_deterministic_witness:
  "results ((session table_four)\<lparr>alg_vals := [[NaN]], alg_names := [''X''], n_compare := [(7, 7)],
                                 stdout := [Omnibus NaN NaN]\<rparr>) = results (session table_four) \<and>
   printed ((session table_four)\<lparr>alg_vals := [[NaN]], alg_names := [''X''], n_compare := [(7, 7)],
                                 stdout := [Omnibus NaN NaN]\<rparr>)
     (fst (evaluate_metric (friedman_returns (Num 9) (Num 0.01)) (wilcoxon_returns (Num 3) (Num 0.001))
        Precision_m ((session table_four)\<lparr>alg_vals := [[NaN]], alg_names := [''X''], n_compare := [(7, 7)],
                                 stdout := [Omnibus NaN NaN]\<rparr>))) =
   printed (session table_four)
     (fst (evaluate_metric (friedman_returns (Num 9) (Num 0.01)) (wilcoxon_returns (Num 3) (Num 0.001))
        Precision_m (session table_four)))"
  using evaluation_deterministic [of
      "(session table_four)\<lparr>alg_vals := [[NaN]], alg_names := [''X''], n_compare := [(7, 7)],
                                 stdout := [Omnibus NaN NaN]\<rparr>"
      "session table_four" "friedman_returns (Num 9) (Num 0.01)" "wilcoxon_returns (Num 3) (Num 0.001)"
      Precision_m]
  by simp

end
